theory Spec2Isabelle
  imports Complex_Main
begin

section \<open>Python values and errors\<close>

text \<open>
  Every \<open>raise\<close>, failed \<open>assert\<close> and \<open>exit\<close> of the Python source is a value of
  \<open>py_error\<close>; a function that can fail returns \<open>py_error + 'a\<close> with \<open>Inl\<close> the error.
  \<open>AssertionError\<close> carries the message of the failed \<open>assert\<close>, \<open>SystemExit\<close> the exit code.
\<close>

datatype py_error =
    KeyError
  | IndexError
  | ValueError
  | TypeError
  | AttributeError
  | UnboundLocalError
  | RuntimeError
  | AssertionError string
  | SystemExit int

text \<open>
  A Python float as far as the program looks at it: the program only compares floats with
  zero. \<open>Finite r\<close> is a finite double of value \<open>r\<close> (both zeros are \<open>Finite 0\<close>).
\<close>

datatype pyfloat = Finite real | PosInf | NegInf | NaN

text \<open>\<open>x > 0\<close> and \<open>x >= 0\<close> on floats; every comparison with NaN is false.\<close>

primrec fgt0 :: "pyfloat \<Rightarrow> bool" where
  "fgt0 (Finite r) = (0 < r)"
| "fgt0 PosInf = True"
| "fgt0 NegInf = False"
| "fgt0 NaN = False"

primrec fge0 :: "pyfloat \<Rightarrow> bool" where
  "fge0 (Finite r) = (0 \<le> r)"
| "fge0 PosInf = True"
| "fge0 NegInf = False"
| "fge0 NaN = False"

text \<open>The values that the program passes around dynamically typed.\<close>

datatype pyval =
    PInt int
  | PFloat pyfloat
  | PBool bool
  | PStr string
  | PNone
  | PMatrix "real list list"

text \<open>\<open>str(n)\<close> for an integer: its decimal digits, with a leading minus sign.\<close>

fun digits :: "nat \<Rightarrow> string" where
  "digits n =
     (if n < 10 then [''0123456789'' ! n]
      else digits (n div 10) @ [''0123456789'' ! (n mod 10)])"

definition str_int :: "int \<Rightarrow> string" where
  "str_int i = (if i < 0 then CHR ''-'' # digits (nat (- i)) else digits (nat i))"

text \<open>
  The \<open>%\<close> operator on a format string whose only conversions are \<open>%s\<close>, applied to the
  already stringified arguments. Too few arguments and arguments left over are both a
  \<open>TypeError\<close> (``not enough arguments for format string'', ``not all arguments converted
  during string formatting''); a \<open>%\<close> followed by anything else is outside what the program
  uses and is modelled as \<open>ValueError\<close>.
\<close>

fun py_format :: "string \<Rightarrow> string list \<Rightarrow> py_error + string" where
  "py_format [] [] = Inr []"
| "py_format [] (a # as) = Inl TypeError"
| "py_format (c # cs) as =
     (if c = CHR ''%'' then
        (case cs of
           [] \<Rightarrow> Inl ValueError
         | d # rest \<Rightarrow>
             if d = CHR ''s'' then
               (case as of
                  [] \<Rightarrow> Inl TypeError
                | a # as' \<Rightarrow>
                    (case py_format rest as' of Inl e \<Rightarrow> Inl e | Inr r \<Rightarrow> Inr (a @ r)))
             else Inl ValueError)
      else (case py_format cs as of Inl e \<Rightarrow> Inl e | Inr r \<Rightarrow> Inr (c # r)))"

section \<open>\<open>run_model.py\<close>: writing predictions\<close>

text \<open>
  A token or a gold label of \<open>write_predictions\<close> is a string or an integer: the test path
  passes the strings of the pickle, the training and evaluation paths pass label indices.
\<close>

datatype cell = CInt int | CStr string

primrec str_cell :: "cell \<Rightarrow> string" where
  "str_cell (CInt i) = str_int i"
| "str_cell (CStr s) = s"

text \<open>
  \<open>index_to_class = {v: k for k, v in class_vocab.items()}\<close>. The vocabulary is the list
  of its items in iteration order; where two classes share an index the later one wins.
  The keys of the inverted dictionary are integers, so a string is never found in it.
\<close>

definition index_to_class :: "(string \<times> int) list \<Rightarrow> (int \<rightharpoonup> string)" where
  "index_to_class class_vocab = map_of (rev (map (\<lambda>(k, v). (v, k)) class_vocab))"

definition lookup_cell :: "(int \<rightharpoonup> string) \<Rightarrow> cell \<Rightarrow> py_error + string" where
  "lookup_cell itc c =
     (case c of
        CInt i \<Rightarrow> (case itc i of None \<Rightarrow> Inl KeyError | Some s \<Rightarrow> Inr s)
      | CStr s \<Rightarrow> Inl KeyError)"

text \<open>
  The inner loop of \<open>write_predictions\<close> over \<open>zip(tokens_seq, labels_seq, predictions_seq)\<close>;
  \<open>file\<close> is what has been written so far.
\<close>

fun write_sequence ::
  "(int \<rightharpoonup> string) \<Rightarrow> bool \<Rightarrow> (cell \<times> cell \<times> int) list \<Rightarrow> string \<Rightarrow> py_error + string" where
  "write_sequence itc indexed_labels [] file = Inr file"
| "write_sequence itc indexed_labels ((word, concept, predicted_concept) # rest) file =
     (case (if indexed_labels then lookup_cell itc concept else Inr (str_cell concept)) of
        Inl e \<Rightarrow> Inl e
      | Inr conc \<Rightarrow>
          (case lookup_cell itc (CInt predicted_concept) of
             Inl e \<Rightarrow> Inl e
           | Inr pred \<Rightarrow>
               (case py_format ''%s %s %s\<newline>'' [str_cell word, conc, pred] of
                  Inl e \<Rightarrow> Inl e
                | Inr line \<Rightarrow> write_sequence itc indexed_labels rest (file @ line))))"

text \<open>The outer loop over \<open>zip(tokens, labels, predictions)\<close>, a blank line after each.\<close>

fun write_sequences ::
  "(int \<rightharpoonup> string) \<Rightarrow> bool \<Rightarrow> (cell list \<times> cell list \<times> int list) list \<Rightarrow> string
     \<Rightarrow> py_error + string" where
  "write_sequences itc indexed_labels [] file = Inr file"
| "write_sequences itc indexed_labels ((tokens_seq, labels_seq, predictions_seq) # rest) file =
     (case write_sequence itc indexed_labels
             (zip tokens_seq (zip labels_seq predictions_seq)) file of
        Inl e \<Rightarrow> Inl e
      | Inr file' \<Rightarrow> write_sequences itc indexed_labels rest (file' @ ''\<newline>''))"

text \<open>
  \<open>write_predictions(tokens, labels, predictions, path, indexed_labels, class_vocab)\<close>.
  The file is opened with mode \<open>"w"\<close>, so it starts empty; the result is its final content.
\<close>

definition write_predictions ::
  "cell list list \<Rightarrow> cell list list \<Rightarrow> int list list \<Rightarrow> bool \<Rightarrow> (string \<times> int) list
     \<Rightarrow> py_error + string" where
  "write_predictions tokens labels predictions indexed_labels class_vocab =
     write_sequences (index_to_class class_vocab) indexed_labels
       (zip tokens (zip labels predictions)) []"





section \<open>\<open>run_model.py\<close>: parsing the configuration\<close>

definition possible_models :: "string list" where
  "possible_models =
     [''recurrent'', ''rnn'', ''gru'', ''lstm2ch'', ''encoder'', ''attention'', ''conv'',
      ''init_hidden'', ''lstmcrf'']"

definition possible_sequences :: "string list" where
  "possible_sequences = [''tokens'']"

definition possible_datasets :: "string list" where
  "possible_datasets = [''movies'', ''atis'', ''vui'']"

text \<open>\<open>dict(opts)\<close> for the list of pairs that \<open>getopt\<close> returns: a later pair wins.\<close>

definition py_dict :: "('k \<times> 'v) list \<Rightarrow> ('k \<rightharpoonup> 'v)" where
  "py_dict kvs = map_of (rev kvs)"

text \<open>
  \<open>float(opts.get(key, default))\<close> and \<open>int(opts.get(key, default))\<close>. The builtins
  \<open>float\<close> and \<open>int\<close> on a string are parameters of the model (\<open>float_of\<close>, \<open>int_of\<close>);
  they raise \<open>ValueError\<close> on a string they do not read. On the numeric default they are
  the identity.
\<close>

definition opt_float ::
  "(string \<Rightarrow> py_error + pyfloat) \<Rightarrow> (string \<rightharpoonup> string) \<Rightarrow> string \<Rightarrow> pyfloat
     \<Rightarrow> py_error + pyfloat" where
  "opt_float float_of opts key dflt =
     (case opts key of None \<Rightarrow> Inr dflt | Some s \<Rightarrow> float_of s)"

definition opt_int ::
  "(string \<Rightarrow> py_error + int) \<Rightarrow> (string \<rightharpoonup> string) \<Rightarrow> string \<Rightarrow> int \<Rightarrow> py_error + int" where
  "opt_int int_of opts key dflt =
     (case opts key of None \<Rightarrow> Inr dflt | Some s \<Rightarrow> int_of s)"

text \<open>\<open>opts.get(key, None)\<close> and \<open>opts.get(key, default)\<close> as Python values.\<close>

definition opt_or_none :: "(string \<rightharpoonup> string) \<Rightarrow> string \<Rightarrow> pyval" where
  "opt_or_none opts key = (case opts key of None \<Rightarrow> PNone | Some s \<Rightarrow> PStr s)"

definition opt_or :: "(string \<rightharpoonup> string) \<Rightarrow> string \<Rightarrow> string \<Rightarrow> string" where
  "opt_or opts key dflt = (case opts key of None \<Rightarrow> dflt | Some s \<Rightarrow> s)"

text \<open>
  The dictionary \<open>res\<close> that \<open>parse_args\<close> builds, in the order of its assignments. The
  key \<open>embedding\<close> is only set for the dataset \<open>movies\<close>.
\<close>

definition build_res ::
  "(string \<rightharpoonup> string) \<Rightarrow> pyfloat \<Rightarrow> pyfloat \<Rightarrow> pyfloat \<Rightarrow> pyfloat \<Rightarrow> int \<Rightarrow> int \<Rightarrow> int
     \<Rightarrow> string \<Rightarrow> string \<Rightarrow> string \<Rightarrow> (string \<rightharpoonup> pyval)" where
  "build_res opts lr drp decay embedding_norm batch epochs hidden_size sequence model dataset =
     (let res = Map.empty
            (''lr'' \<mapsto> PFloat lr,
             ''drop'' \<mapsto> PFloat drp,
             ''decay'' \<mapsto> PFloat decay,
             ''embedding_norm'' \<mapsto> PFloat embedding_norm,
             ''batch'' \<mapsto> PInt batch,
             ''epochs'' \<mapsto> PInt epochs,
             ''hidden_size'' \<mapsto> PInt hidden_size,
             ''model'' \<mapsto> PStr model,
             ''dataset'' \<mapsto> PStr dataset,
             ''sequence'' \<mapsto> PStr sequence,
             ''save'' \<mapsto> opt_or_none opts ''--save'',
             ''write'' \<mapsto> opt_or_none opts ''--write'',
             ''dev'' \<mapsto> PBool (opts ''--dev'' \<noteq> None),
             ''bidirectional'' \<mapsto> PBool (opts ''--bidirectional'' \<noteq> None),
             ''unfreeze'' \<mapsto> PBool (opts ''--unfreeze'' \<noteq> None));
          res = (if dataset = ''movies''
                 then res(''embedding'' \<mapsto>
                        PStr (opt_or opts ''--embedding'' ''../data/movies/w2v_trimmed.pickle''))
                 else res)
      in res(''char_embedding'' \<mapsto> opt_or_none opts ''--char_embedding''))"

text \<open>
  Sequencing of steps that can raise: the first error ends the computation. \<open>py_assert\<close>
  is the \<open>assert\<close> statement; its \<open>AssertionError\<close> carries the fixed part of the
  assertion's message.
\<close>

definition and_then :: "py_error + 'a \<Rightarrow> ('a \<Rightarrow> py_error + 'b) \<Rightarrow> py_error + 'b" where
  "and_then x f = (case x of Inl e \<Rightarrow> Inl e | Inr v \<Rightarrow> f v)"

definition py_assert :: "bool \<Rightarrow> string \<Rightarrow> py_error + unit" where
  "py_assert c msg = (if c then Inr () else Inl (AssertionError msg))"

text \<open>
  \<open>parse_args\<close> from \<open>opts = dict(opts)\<close> on. Conversions and assertions run in the order
  of the source, so the first one that fails decides the error. The printed summary is
  not modelled.
\<close>

definition parse_opts ::
  "(string \<Rightarrow> py_error + pyfloat) \<Rightarrow> (string \<Rightarrow> py_error + int) \<Rightarrow> (string \<times> string) list
     \<Rightarrow> py_error + (string \<rightharpoonup> pyval)" where
  "parse_opts float_of int_of optlist =
    (let opts = py_dict optlist in
     if opts ''--help'' \<noteq> None then Inl (SystemExit 0) else
     and_then (opt_float float_of opts ''--lr'' (Finite (1 / 100))) (\<lambda>lr.
     and_then (py_assert (fgt0 lr) ''learning rate should be greater than 0'') (\<lambda>_.
     and_then (opt_float float_of opts ''--drop'' (Finite 0)) (\<lambda>drp.
     and_then (py_assert (fge0 drp) ''dropout rate should be greater or equal to 0'') (\<lambda>_.
     and_then (opt_float float_of opts ''--decay'' (Finite 0)) (\<lambda>decay.
     and_then (py_assert (fge0 decay) ''decay should be greater or equal to 0'') (\<lambda>_.
     and_then (opt_float float_of opts ''--embedding_norm'' (Finite 10)) (\<lambda>embedding_norm.
     and_then (py_assert (fge0 embedding_norm)
                 ''embedding_norm should be greater or equal to 0'') (\<lambda>_.
     and_then (opt_int int_of opts ''--batch'' 80) (\<lambda>batch.
     and_then (py_assert (0 < batch) ''batch size should be greater than 0'') (\<lambda>_.
     and_then (opt_int int_of opts ''--epochs'' 30) (\<lambda>epochs.
     and_then (py_assert (0 < epochs) ''epochs size should be greater than 0'') (\<lambda>_.
     and_then (opt_int int_of opts ''--hidden_size'' 200) (\<lambda>hidden_size.
     and_then (py_assert (0 < hidden_size) ''hidden size should be greater than 0'') (\<lambda>_.
     and_then (py_assert (opt_or opts ''--sequence'' [] \<in> set possible_sequences)
                 ''sequence to use should be among the following:'') (\<lambda>_.
     and_then (py_assert (opt_or opts ''--model'' [] \<in> set possible_models)
                 ''use a model from the possible models:'') (\<lambda>_.
     and_then (py_assert (opt_or opts ''--dataset'' [] \<in> set possible_datasets)
                 ''use a dataset from the possible datasets:'') (\<lambda>_.
     Inr (build_res opts lr drp decay embedding_norm batch epochs hidden_size
            (opt_or opts ''--sequence'' []) (opt_or opts ''--model'' [])
            (opt_or opts ''--dataset'' []))))))))))))))))))))"

text \<open>
  \<open>parse_args(args)\<close>: \<open>getopt.getopt\<close> is a parameter; when it raises \<open>GetoptError\<close>
  the function prints the error and calls \<open>sys.exit(2)\<close>.
\<close>

definition parse_args ::
  "(string list \<Rightarrow> 'e + (string \<times> string) list \<times> string list)
     \<Rightarrow> (string \<Rightarrow> py_error + pyfloat) \<Rightarrow> (string \<Rightarrow> py_error + int) \<Rightarrow> string list
     \<Rightarrow> py_error + (string \<rightharpoonup> pyval)" where
  "parse_args getopt float_of int_of args =
     (case getopt args of
        Inl err \<Rightarrow> Inl (SystemExit 2)
      | Inr (optlist, rest) \<Rightarrow> parse_opts float_of int_of optlist)"

text \<open>
  The checks of the configuration: \<open>listed_checks\<close> are the ones on the learning rate,
  dropout, decay, embedding norm, batch size, epoch count and the three names;
  \<open>all_checks\<close> adds the assertion on the hidden size that the source also makes.
\<close>

definition listed_checks ::
  "pyfloat \<Rightarrow> pyfloat \<Rightarrow> pyfloat \<Rightarrow> pyfloat \<Rightarrow> int \<Rightarrow> int \<Rightarrow> string \<Rightarrow> string \<Rightarrow> string
     \<Rightarrow> bool" where
  "listed_checks lr drp decay embedding_norm batch epochs sequence model dataset =
     (fgt0 lr \<and> fge0 drp \<and> fge0 decay \<and> fge0 embedding_norm \<and> 0 < batch \<and> 0 < epochs \<and>
      sequence \<in> set possible_sequences \<and> model \<in> set possible_models \<and>
      dataset \<in> set possible_datasets)"

definition all_checks ::
  "pyfloat \<Rightarrow> pyfloat \<Rightarrow> pyfloat \<Rightarrow> pyfloat \<Rightarrow> int \<Rightarrow> int \<Rightarrow> int \<Rightarrow> string \<Rightarrow> string \<Rightarrow> string
     \<Rightarrow> bool" where
  "all_checks lr drp decay embedding_norm batch epochs hidden_size sequence model dataset =
     (listed_checks lr drp decay embedding_norm batch epochs sequence model dataset \<and>
      0 < hidden_size)"

section \<open>\<open>models/encoder.py\<close>: the constructor\<close>

text \<open>
  The attributes of an \<open>EncoderDecoderRNN\<close> that the forward pass reads. The layers the
  constructor creates hold randomly initialised weights; they are parameters of the
  forward pass below, not part of this record.
\<close>

record config =
  device :: pyval
  hidden_dim :: nat
  tagset_size :: nat
  embedding_dim :: nat
  decoder_embedding_size :: nat
  w2v_weights :: "real list list"
  bidirectional :: bool

text \<open>
  Binding of the positional arguments of
  \<open>__init__(self, device, w2v_weights, decoder_embedding_size, hidden_dim, tagset_size,
  drop_rate=0.5, bidirectional=False, freeze=True, max_norm_emb1=10, max_norm_emb2=10)\<close>:
  the arguments fill the parameters from the left, the defaults fill the rest; fewer than
  five or more than ten arguments are a \<open>TypeError\<close>.
\<close>

definition init_defaults :: "pyval list" where
  "init_defaults = [PFloat (Finite (1 / 2)), PBool False, PBool True, PInt 10, PInt 10]"

definition bind_init :: "pyval list \<Rightarrow> py_error + pyval list" where
  "bind_init args =
     (if length args < 5 \<or> 10 < length args then Inl TypeError
      else Inr (args @ drop (length args - 5) init_defaults))"

text \<open>
  \<open>w2v_weights.shape[1]\<close>: only an array has the attribute \<open>shape\<close>; on an integer, a
  float, a boolean, a string or \<open>None\<close> the attribute access raises \<open>AttributeError\<close>.
  The second dimension of a matrix is the length of its rows.
\<close>

definition shape1 :: "pyval \<Rightarrow> py_error + nat" where
  "shape1 v =
     (case v of
        PMatrix rows \<Rightarrow> Inr (case rows of [] \<Rightarrow> 0 | r # _ \<Rightarrow> length r)
      | _ \<Rightarrow> Inl AttributeError)"

text \<open>
  The sizes and the flag that the torch layer constructors are given. A value of the
  wrong kind, or a negative size, is refused by them; this is modelled as \<open>TypeError\<close>.
\<close>

definition as_size :: "pyval \<Rightarrow> py_error + nat" where
  "as_size v = (case v of PInt i \<Rightarrow> (if 0 \<le> i then Inr (nat i) else Inl TypeError)
                | _ \<Rightarrow> Inl TypeError)"

definition as_matrix :: "pyval \<Rightarrow> py_error + real list list" where
  "as_matrix v = (case v of PMatrix rows \<Rightarrow> Inr rows | _ \<Rightarrow> Inl TypeError)"

definition as_flag :: "pyval \<Rightarrow> py_error + bool" where
  "as_flag v = (case v of PBool b \<Rightarrow> Inr b | _ \<Rightarrow> Inl TypeError)"

text \<open>
  The body of \<open>__init__\<close> on the bound parameters, in the order of the source: the
  attribute assignments, among them \<open>self.embedding_dim = w2v_weights.shape[1]\<close>, and
  then the layers.
\<close>

definition init_body :: "pyval list \<Rightarrow> py_error + config" where
  "init_body ps =
     (case ps of
        [dev, weights, dec_size, hid, tags, drop_rate, bidir, freeze, norm1, norm2] \<Rightarrow>
          and_then (shape1 weights) (\<lambda>emb_dim.
          and_then (as_matrix weights) (\<lambda>rows.
          and_then (as_size hid) (\<lambda>h.
          and_then (as_flag bidir) (\<lambda>b.
          and_then (as_size tags) (\<lambda>t.
          and_then (as_size dec_size) (\<lambda>d.
          Inr \<lparr>device = dev, hidden_dim = h, tagset_size = t, embedding_dim = emb_dim,
               decoder_embedding_size = d, w2v_weights = rows, bidirectional = b\<rparr>))))))
      | _ \<Rightarrow> Inl TypeError)"

definition EncoderDecoderRNN :: "pyval list \<Rightarrow> py_error + config" where
  "EncoderDecoderRNN args = and_then (bind_init args) init_body"

text \<open>
  Sizes fixed by the constructor: the encoder GRU has \<open>hidden_dim // 2\<close> features per
  direction when bidirectional and \<open>hidden_dim\<close> otherwise; the decoder GRU has
  \<open>hidden_dim\<close> features, whatever the direction flag; the tag embedding table has
  \<open>tagset_size + 1\<close> rows.
\<close>

definition gru_encoder_hidden_size :: "config \<Rightarrow> nat" where
  "gru_encoder_hidden_size m = hidden_dim m div (if \<not> bidirectional m then 1 else 2)"

definition gru_decoder_hidden_size :: "config \<Rightarrow> nat" where
  "gru_decoder_hidden_size m = hidden_dim m"

definition embedding_decoder_rows :: "config \<Rightarrow> nat" where
  "embedding_decoder_rows m = tagset_size m + 1"

section \<open>\<open>run_model.py\<close>: choosing and building the model\<close>

text \<open>
  The collaborators of \<open>data_manager\<close>, which is not part of the sources: the embedding
  loader, the class vocabulary of the movies dataset and the two transforms. Each call
  may raise.
\<close>

record ('it, 'dt) data_manager =
  w2v_matrix_vocab_generator :: "pyval \<Rightarrow> py_error + ((string \<rightharpoonup> int) \<times> real list list)"
  class_vocab_movies :: "(string \<times> int) list"
  InitTransform ::
    "pyval \<Rightarrow> (string \<rightharpoonup> int) \<Rightarrow> (string \<times> int) list \<Rightarrow> (string \<rightharpoonup> int) option
       \<Rightarrow> py_error + 'it"
  DropTransform :: "real \<Rightarrow> int \<Rightarrow> int \<Rightarrow> py_error + 'dt"

text \<open>A model built by \<open>pick_model_transform\<close>: the encoder-decoder or one of the others.\<close>

datatype 'm built_model = Encoder config | Other 'm

text \<open>\<open>d[key]\<close> on a dictionary, and \<open>not v\<close> by Python's truth value of \<open>v\<close>.\<close>

definition dict_get :: "('k \<rightharpoonup> 'v) \<Rightarrow> 'k \<Rightarrow> py_error + 'v" where
  "dict_get d key = (case d key of None \<Rightarrow> Inl KeyError | Some v \<Rightarrow> Inr v)"

definition truthy :: "pyval \<Rightarrow> py_error + bool" where
  "truthy v =
     (case v of
        PInt i \<Rightarrow> Inr (i \<noteq> 0)
      | PFloat f \<Rightarrow> Inr (f \<noteq> Finite 0)
      | PBool b \<Rightarrow> Inr b
      | PStr s \<Rightarrow> Inr (s \<noteq> [])
      | PNone \<Rightarrow> Inr False
      | PMatrix rows \<Rightarrow>
          (case concat rows of [] \<Rightarrow> Inr False | [x] \<Rightarrow> Inr (x \<noteq> 0) | _ \<Rightarrow> Inl ValueError))"

definition py_not :: "pyval \<Rightarrow> py_error + pyval" where
  "py_not v = and_then (truthy v) (\<lambda>b. Inr (PBool (\<not> b)))"

text \<open>
  The \<open>encoder\<close> branch: the arguments of the call in the order they are evaluated. The
  call passes nine positional arguments, the first of them the weight matrix.
\<close>

definition encoder_args ::
  "(string \<rightharpoonup> pyval) \<Rightarrow> real list list \<Rightarrow> (string \<times> int) list \<Rightarrow> py_error + pyval list" where
  "encoder_args params weights class_vocab =
     (let tag_embedding_size = 20 in
      and_then (dict_get params ''hidden_size'') (\<lambda>hidden_size.
      and_then (dict_get params ''drop'') (\<lambda>drp.
      and_then (dict_get params ''bidirectional'') (\<lambda>bidir.
      and_then (dict_get params ''unfreeze'') (\<lambda>unfreeze.
      and_then (py_not unfreeze) (\<lambda>freeze.
      and_then (dict_get params ''embedding_norm'') (\<lambda>norm1.
      and_then (dict_get params ''embedding_norm'') (\<lambda>norm2.
      Inr [PMatrix weights, PInt tag_embedding_size, hidden_size,
           PInt (int (length class_vocab)), drp, bidir, freeze, norm1, norm2]))))))))"

text \<open>
  The chain of \<open>if\<close>/\<open>elif\<close> on \<open>params["model"]\<close>. The classes of the other models are
  not part of the sources; \<open>other\<close> stands for their constructors. When no branch is
  taken \<open>model\<close> is unbound at \<open>model.to(device)\<close>.
\<close>

definition construct_model ::
  "(string \<Rightarrow> (string \<rightharpoonup> pyval) \<Rightarrow> real list list \<Rightarrow> (string \<times> int) list
      \<Rightarrow> real list list option \<Rightarrow> py_error + 'm)
     \<Rightarrow> (string \<rightharpoonup> pyval) \<Rightarrow> real list list \<Rightarrow> (string \<times> int) list \<Rightarrow> real list list option
     \<Rightarrow> pyval \<Rightarrow> py_error + 'm built_model" where
  "construct_model other params weights class_vocab c2v_weights model =
     (if model = PStr ''recurrent'' \<or> model = PStr ''gru'' \<or> model = PStr ''rnn''
      then and_then (other ''recurrent'' params weights class_vocab c2v_weights)
             (\<lambda>m. Inr (Other m))
      else if model = PStr ''lstm2ch''
      then and_then (other ''lstm2ch'' params weights class_vocab c2v_weights)
             (\<lambda>m. Inr (Other m))
      else if model = PStr ''encoder''
      then and_then (encoder_args params weights class_vocab) (\<lambda>args.
           and_then (EncoderDecoderRNN args) (\<lambda>m. Inr (Encoder m)))
      else if model = PStr ''attention''
      then and_then (other ''attention'' params weights class_vocab c2v_weights)
             (\<lambda>m. Inr (Other m))
      else if model = PStr ''conv''
      then and_then (other ''conv'' params weights class_vocab c2v_weights)
             (\<lambda>m. Inr (Other m))
      else if model = PStr ''init_hidden''
      then and_then (other ''init_hidden'' params weights class_vocab c2v_weights)
             (\<lambda>m. Inr (Other m))
      else if model = PStr ''lstmcrf''
      then and_then (other ''lstmcrf'' params weights class_vocab c2v_weights)
             (\<lambda>m. Inr (Other m))
      else Inl UnboundLocalError)"

text \<open>
  \<open>pick_model_transform(params)\<close>. \<open>class_vocab\<close> is bound only for the dataset
  \<open>movies\<close>; its first use otherwise raises \<open>UnboundLocalError\<close>. Moving the model to the
  device and counting its parameters do not change what is returned.
\<close>

definition pick_model_transform ::
  "('it, 'dt) data_manager
     \<Rightarrow> (string \<Rightarrow> (string \<rightharpoonup> pyval) \<Rightarrow> real list list \<Rightarrow> (string \<times> int) list
           \<Rightarrow> real list list option \<Rightarrow> py_error + 'm)
     \<Rightarrow> (string \<rightharpoonup> pyval) \<Rightarrow> py_error + ('m built_model \<times> 'it \<times> 'dt)" where
  "pick_model_transform dm other params =
     and_then (dict_get params ''embedding'') (\<lambda>emb.
     and_then (w2v_matrix_vocab_generator dm emb) (\<lambda>(w2v_vocab, weights).
     and_then (dict_get params ''dataset'') (\<lambda>dataset.
     and_then (dict_get params ''char_embedding'') (\<lambda>char_emb.
     and_then (if char_emb \<noteq> PNone
               then and_then (w2v_matrix_vocab_generator dm char_emb) (\<lambda>c. Inr (Some c))
               else Inr None) (\<lambda>c2v.
     and_then (dict_get params ''sequence'') (\<lambda>sequence.
     and_then (if dataset = PStr ''movies'' then Inr (class_vocab_movies dm)
               else Inl UnboundLocalError) (\<lambda>class_vocab.
     and_then (InitTransform dm sequence w2v_vocab class_vocab (map_option fst c2v))
       (\<lambda>init_data_transform.
     and_then (dict_get w2v_vocab ''<UNK>'') (\<lambda>unk.
     and_then (dict_get w2v_vocab ''<padding>'') (\<lambda>padding.
     and_then (DropTransform dm (1 / 1000) unk padding) (\<lambda>drop_data_transform.
     and_then (dict_get params ''model'') (\<lambda>model.
     and_then (construct_model other params weights class_vocab (map_option snd c2v) model)
       (\<lambda>built.
     Inr (built, init_data_transform, drop_data_transform))))))))))))))"

text \<open>
  The start of the script, lines 405 to 415: the configuration is parsed first, and only
  with its result is the model chosen and built.
\<close>

definition main_setup ::
  "(string list \<Rightarrow> 'e + (string \<times> string) list \<times> string list)
     \<Rightarrow> (string \<Rightarrow> py_error + pyfloat) \<Rightarrow> (string \<Rightarrow> py_error + int)
     \<Rightarrow> ('it, 'dt) data_manager
     \<Rightarrow> (string \<Rightarrow> (string \<rightharpoonup> pyval) \<Rightarrow> real list list \<Rightarrow> (string \<times> int) list
           \<Rightarrow> real list list option \<Rightarrow> py_error + 'm)
     \<Rightarrow> string list \<Rightarrow> py_error + ('m built_model \<times> 'it \<times> 'dt)" where
  "main_setup getopt float_of int_of dm other args =
     and_then (parse_args getopt float_of int_of args) (\<lambda>params.
       pick_model_transform dm other params)"

section \<open>\<open>models/encoder.py\<close>: the forward pass\<close>

text \<open>
  Tensors are nested lists, outermost dimension first; the numbers in them are reals.
  An example of a batch is its list of token indices with its list of label indices.
\<close>

type_synonym tensor2 = "real list list"
type_synonym tensor3 = "real list list list"
type_synonym tensor4 = "real list list list list"
type_synonym example = "int list \<times> int list"

text \<open>
  Modelled from the spec: \<open>data_manager.batch_sequence\<close> is not part of the sources.
  Following section 4.1 of the specification, a list of examples of lengths
  \<open>L\<^sub>1 \<dots> L\<^sub>N\<close> becomes a tensor of shape \<open>(N, max L\<^sub>i)\<close> of token indices padded with the
  padding index, a tensor of the same shape of label indices padded with \<open>-1\<close>, and the
  original lengths. The padding index is the last row of the embedding table.
\<close>

definition max_len :: "example list \<Rightarrow> nat" where
  "max_len batch = foldr max (map (\<lambda>ex. length (fst ex)) batch) 0"

definition pad_to :: "nat \<Rightarrow> 'a \<Rightarrow> 'a list \<Rightarrow> 'a list" where
  "pad_to n x xs = xs @ replicate (n - length xs) x"

definition batch_sequence :: "int \<Rightarrow> example list \<Rightarrow> int list list \<times> int list list \<times> nat list" where
  "batch_sequence padding batch =
     (map (\<lambda>ex. pad_to (max_len batch) padding (fst ex)) batch,
      map (\<lambda>ex. pad_to (max_len batch) (- 1) (snd ex)) batch,
      map (\<lambda>ex. length (fst ex)) batch)"

definition padding_index :: "config \<Rightarrow> int" where
  "padding_index m = int (length (w2v_weights m)) - 1"

text \<open>
  The layers of the module. Dropout draws random numbers, batch normalisation updates
  its running statistics and an embedding with a maximum norm rescales its rows, so each
  layer takes the state \<open>'s\<close> of all that and returns the new one with its output.
  What a layer computes is left open; \<open>softmax\<close> is the \<open>LogSoftmax\<close> over dimension 2.
\<close>

record 's layers =
  embedding_encoder :: "'s \<Rightarrow> int list list \<Rightarrow> tensor3 \<times> 's"
  drop_layer :: "'s \<Rightarrow> tensor3 \<Rightarrow> tensor3 \<times> 's"
  gru_encoder :: "'s \<Rightarrow> tensor3 \<Rightarrow> tensor3 \<Rightarrow> (tensor3 \<times> tensor3) \<times> 's"
  embedding_decoder :: "'s \<Rightarrow> int list list \<Rightarrow> tensor3 \<times> 's"
  gru_decoder :: "'s \<Rightarrow> tensor3 \<Rightarrow> tensor3 \<Rightarrow> (tensor3 \<times> tensor3) \<times> 's"
  bnorm :: "'s \<Rightarrow> tensor4 \<Rightarrow> tensor4 \<times> 's"
  out :: "'s \<Rightarrow> tensor3 \<Rightarrow> tensor3 \<times> 's"
  softmax :: "tensor3 \<Rightarrow> tensor3"

text \<open>
  Tensor operations of torch that the forward pass uses. \<open>unsqueeze1\<close> adds a dimension
  of size one at position 1; \<open>squeeze1\<close> removes the dimension at position 1 of a tensor
  where it has size one; \<open>size1\<close> is \<open>t.size()[1]\<close>.
\<close>

definition relu :: "tensor3 \<Rightarrow> tensor3" where
  "relu t = map (map (map (max 0))) t"

definition unsqueeze1 :: "'a list \<Rightarrow> 'a list list" where
  "unsqueeze1 t = map (\<lambda>x. [x]) t"

definition squeeze1 :: "'a list list list \<Rightarrow> 'a list list" where
  "squeeze1 t = map concat t"

definition size1 :: "'a list list \<Rightarrow> nat" where
  "size1 t = (case t of [] \<Rightarrow> 0 | x # _ \<Rightarrow> length x)"

text \<open>
  \<open>torch.add(input, alpha, other)\<close> with three positional arguments is the overload that
  returns a new tensor \<open>input + alpha * other\<close>; it changes none of its arguments.
\<close>

definition torch_add :: "int list list \<Rightarrow> int \<Rightarrow> int list list \<Rightarrow> int list list" where
  "torch_add input alpha other = map2 (map2 (\<lambda>x y. x + alpha * y)) input other"

text \<open>
  The index of the largest entry of a row, the first one among equals; torch raises on
  an empty row. \<open>topk1\<close> is \<open>topk(1)\<close> over the last dimension of a tensor of three
  dimensions, giving the indices.
\<close>

fun best_index :: "real list \<Rightarrow> nat \<Rightarrow> nat \<Rightarrow> real \<Rightarrow> nat" where
  "best_index [] i bi bv = bi"
| "best_index (x # xs) i bi bv =
     (if bv < x then best_index xs (Suc i) i x else best_index xs (Suc i) bi bv)"

definition argmax_row :: "real list \<Rightarrow> py_error + int" where
  "argmax_row row =
     (case row of [] \<Rightarrow> Inl RuntimeError | x # xs \<Rightarrow> Inr (int (best_index xs 1 0 x)))"


fun collect :: "(py_error + 'a) list \<Rightarrow> py_error + 'a list" where
  "collect [] = Inr []"
| "collect (x # xs) =
     (case x of
        Inl e \<Rightarrow> Inl e
      | Inr v \<Rightarrow> (case collect xs of Inl e \<Rightarrow> Inl e | Inr vs \<Rightarrow> Inr (v # vs)))"

definition topk1 :: "tensor3 \<Rightarrow> py_error + int list list list" where
  "topk1 t =
     collect (map (\<lambda>rows.
       collect (map (\<lambda>row. and_then (argmax_row row) (\<lambda>i. Inr [i])) rows)) t)"

text \<open>
  \<open>torch.cat(results, dim=1)\<close> on a list of tensors of three dimensions; it raises on an
  empty list and on tensors whose first dimensions differ.
\<close>

definition cat_dim1 :: "tensor3 list \<Rightarrow> py_error + tensor3" where
  "cat_dim1 ts =
     (case ts of
        [] \<Rightarrow> Inl RuntimeError
      | t # rest \<Rightarrow>
          if list_all (\<lambda>u. length u = length t) rest
          then Inr (foldl (map2 (@)) t rest)
          else Inl RuntimeError)"

text \<open>
  \<open>t.view(-1, k)\<close>: the entries of the tensor in storage order, cut into rows of \<open>k\<close>;
  it raises when that does not come out even.
\<close>

fun chunks :: "nat \<Rightarrow> 'a list \<Rightarrow> 'a list list" where
  "chunks k xs = (if k = 0 \<or> xs = [] then [] else take k xs # chunks k (drop k xs))"

definition view_rows :: "nat \<Rightarrow> real list \<Rightarrow> py_error + tensor2" where
  "view_rows k xs =
     (if k = 0 \<or> length xs mod k \<noteq> 0 then Inl RuntimeError else Inr (chunks k xs))"

text \<open>\<open>init_hidden_encoder\<close>; the GRU has one layer.\<close>

definition init_hidden_encoder :: "config \<Rightarrow> nat \<Rightarrow> tensor3" where
  "init_hidden_encoder m batch_size =
     (if bidirectional m
      then replicate (1 * 2) (replicate batch_size (replicate (hidden_dim m div 2) 0))
      else replicate 1 (replicate batch_size (replicate (hidden_dim m) 0)))"

text \<open>\<open>decoder_forward\<close>, one step of the decoder.\<close>

definition decoder_forward ::
  "'s layers \<Rightarrow> 's \<Rightarrow> int list list \<Rightarrow> tensor3 \<Rightarrow> (tensor3 \<times> tensor3) \<times> 's" where
  "decoder_forward L s starting_input hidden =
     (let (tag_embedded, s1) = embedding_decoder L s starting_input;
          (tag_embedded, s2) = drop_layer L s1 tag_embedded;
          decoder_input = relu tag_embedded;
          ((decoder_output, hidden'), s3) = gru_decoder L s2 decoder_input hidden;
          (normed, s4) = bnorm L s3 (unsqueeze1 decoder_output);
          decoder_output = squeeze1 normed;
          (decoder_output, s5) = drop_layer L s4 decoder_output;
          (decoder_output, s6) = out L s5 decoder_output;
          decoder_output = softmax L decoder_output
      in ((decoder_output, hidden'), s6))"

text \<open>
  The first input of the decoder, lines 96 to 98 of the source: a tensor of zeros of
  shape \<open>(len(batch), 1)\<close>; the call of \<open>torch.add\<close>, whose result the statement does not
  keep; and the move to the device, which leaves the values as they are.
\<close>

definition start_input :: "config \<Rightarrow> nat \<Rightarrow> int list list" where
  "start_input m n =
     (let decoder_input = replicate n (replicate 1 0);
          discarded = torch_add decoder_input (int (tagset_size m)) decoder_input
      in decoder_input)"

text \<open>
  The hand-over of the hidden state, lines 101 to 104: for a bidirectional encoder
  \<open>torch.cat((hidden_encoder[0], hidden_encoder[1]), dim=1).unsqueeze(0)\<close>, otherwise
  the hidden state itself.
\<close>

definition bridge :: "config \<Rightarrow> tensor3 \<Rightarrow> py_error + tensor3" where
  "bridge m hidden_encoder =
     (if bidirectional m then
        (case hidden_encoder of
           h0 # h1 # _ \<Rightarrow>
             if length h0 = length h1 then Inr [map2 (@) h0 h1] else Inl RuntimeError
         | _ \<Rightarrow> Inl IndexError)
      else Inr hidden_encoder)"

text \<open>
  The loop \<open>for di in range(encoder_output.size()[1])\<close>, with the number of steps still
  to run as its first argument after the layers. It returns the loop's variables as they
  are when it ends: \<open>results\<close>, \<open>decoder_input\<close>, \<open>hidden_decoder\<close>, and the state.
\<close>

fun decode_loop ::
  "'s layers \<Rightarrow> nat \<Rightarrow> 's \<Rightarrow> int list list \<Rightarrow> tensor3 \<Rightarrow> tensor3 list
     \<Rightarrow> py_error + (tensor3 list \<times> int list list \<times> tensor3 \<times> 's)" where
  "decode_loop L 0 s decoder_input hidden_decoder results =
     Inr (results, decoder_input, hidden_decoder, s)"
| "decode_loop L (Suc n) s decoder_input hidden_decoder results =
     (case decoder_forward L s decoder_input hidden_decoder of
        ((decoder_output, hidden'), s') \<Rightarrow>
          (case topk1 decoder_output of
             Inl e \<Rightarrow> Inl e
           | Inr topi \<Rightarrow>
               decode_loop L n s' (squeeze1 topi) hidden' (results @ [decoder_output])))"

text \<open>
  \<open>forward(batch)\<close> up to the encoder, lines 85 to 93: the encoder's output, its final
  hidden state, the padded labels, and the state.
\<close>

definition encode ::
  "config \<Rightarrow> 's layers \<Rightarrow> 's \<Rightarrow> example list \<Rightarrow> tensor3 \<times> tensor3 \<times> int list list \<times> 's" where
  "encode m L s batch =
     (let hidden_encoder = init_hidden_encoder m (length batch);
          (data, labels, lengths) = batch_sequence (padding_index m) batch;
          (data, s1) = embedding_encoder L s data;
          (data, s2) = drop_layer L s1 data;
          ((encoder_output, hidden_encoder), s3) = gru_encoder L s2 data hidden_encoder
      in (encoder_output, hidden_encoder, labels, s3))"

text \<open>
  The decoding part of \<open>forward\<close>, lines 95 to 113: the list \<open>results\<close> of the outputs of
  the steps, with the state.
\<close>

definition decode ::
  "config \<Rightarrow> 's layers \<Rightarrow> 's \<Rightarrow> example list \<Rightarrow> py_error + (tensor3 list \<times> 's)" where
  "decode m L s batch =
     (case encode m L s batch of
        (encoder_output, hidden_encoder, labels, s3) \<Rightarrow>
          (let decoder_input = start_input m (length batch)
           in and_then (bridge m hidden_encoder) (\<lambda>hidden_decoder.
              and_then (decode_loop L (size1 encoder_output) s3 decoder_input
                          hidden_decoder [])
                (\<lambda>(results, decoder_input, hidden_decoder, s4). Inr (results, s4)))))"

text \<open>\<open>forward(batch)\<close>: the flattened log-probabilities with the flattened labels.\<close>

definition forward ::
  "config \<Rightarrow> 's layers \<Rightarrow> 's \<Rightarrow> example list \<Rightarrow> py_error + ((tensor2 \<times> int list) \<times> 's)" where
  "forward m L s batch =
     (case encode m L s batch of
        (encoder_output, hidden_encoder, labels, s3) \<Rightarrow>
          and_then (decode m L s batch) (\<lambda>(results, s4).
          and_then (cat_dim1 results) (\<lambda>results.
          and_then (view_rows (tagset_size m) (concat (concat results))) (\<lambda>flat.
          Inr ((flat, concat labels), s4)))))"



text \<open>
  A small instance on which the forward pass can be run: a model with two tags, layers
  without state that embed an index \<open>i\<close> as the vector \<open>[i]\<close>, pass their input through,
  and give every position the log-probabilities \<open>[-2, -1]\<close>; and a batch of two examples
  of lengths 1 and 3.
\<close>

definition example_model :: config where
  "example_model =
     \<lparr>device = PStr ''cpu'', hidden_dim = 1, tagset_size = 2, embedding_dim = 1,
      decoder_embedding_size = 1, w2v_weights = [[0], [0]], bidirectional = False\<rparr>"

definition example_layers :: "unit layers" where
  "example_layers =
     \<lparr>embedding_encoder = (\<lambda>s x. (map (map (\<lambda>i. [real_of_int i])) x, s)),
      drop_layer = (\<lambda>s x. (x, s)),
      gru_encoder = (\<lambda>s x h. ((x, h), s)),
      embedding_decoder = (\<lambda>s x. (map (map (\<lambda>i. [real_of_int i])) x, s)),
      gru_decoder = (\<lambda>s x h. ((x, h), s)),
      bnorm = (\<lambda>s x. (x, s)),
      out = (\<lambda>s x. (map (\<lambda>rows. [[- 2, - 1]]) x, s)),
      softmax = (\<lambda>x. x)\<rparr>"

definition example_batch :: "example list" where
  "example_batch = [([5], [1]), ([6, 7, 8], [0, 1, 0])]"

section \<open>\<open>run_model.py\<close>: training and evaluation\<close>

text \<open>
  The loop that regroups the flattened predictions and gold labels of one batch, lines
  173 to 184 of \<open>train_model\<close> and lines 103 to 114 of \<open>evaluate_model\<close>: a position whose
  label is not \<open>-1\<close> is appended to the current pair of sequences; a label \<open>-1\<close> appends
  the current pair to \<open>y_predicted\<close> and \<open>y_true\<close> and starts a new one. What is left in
  \<open>tmp_pred\<close> and \<open>tmp_true\<close> when the batch ends is not used again.
\<close>

fun regroup ::
  "(int \<times> int) list \<Rightarrow> int list \<Rightarrow> int list \<Rightarrow> int list list \<Rightarrow> int list list
     \<Rightarrow> int list list \<times> int list list" where
  "regroup [] tmp_pred tmp_true y_predicted y_true = (y_predicted, y_true)"
| "regroup ((ival, labelval) # rest) tmp_pred tmp_true y_predicted y_true =
     (if labelval \<noteq> - 1
      then regroup rest (tmp_pred @ [ival]) (tmp_true @ [labelval]) y_predicted y_true
      else regroup rest [] [] (y_predicted @ [tmp_pred]) (y_true @ [tmp_true]))"

text \<open>\<open>torch.argmax(predicted, dim=1)\<close> on a tensor of two dimensions.\<close>

definition argmax_rows :: "tensor2 \<Rightarrow> py_error + int list" where
  "argmax_rows predicted = collect (map argmax_row predicted)"

text \<open>
  What training needs of the model, the loss and the optimiser; \<open>'s\<close> is the state of the
  model, optimiser and scheduler, \<open>'l\<close> the type of a loss value. A model that is an
  \<open>LstmCrf\<close> returns tag sequences when called and has its own loss; any other model
  returns scores for each tag.
\<close>

record ('s, 'l) harness =
  is_crf :: bool
  call_model :: "'s \<Rightarrow> example list \<Rightarrow> py_error + ((tensor2 \<times> int list) \<times> 's)"
  crf_call :: "'s \<Rightarrow> example list \<Rightarrow> py_error + ((int list \<times> int list) \<times> 's)"
  neg_log_likelihood :: "'s \<Rightarrow> example list \<Rightarrow> py_error + ('l \<times> 's)"
  nll_loss :: "tensor2 \<Rightarrow> int list \<Rightarrow> 'l"
  backward :: "'l \<Rightarrow> 's \<Rightarrow> 's"
  optimizer_step :: "'s \<Rightarrow> 's"
  zero_grad :: "'s \<Rightarrow> 's"
  scheduler_step :: "'l \<Rightarrow> 's \<Rightarrow> 's"
  np_mean :: "'l list \<Rightarrow> 'l"
  model_eval :: "'s \<Rightarrow> 's"
  model_train :: "'s \<Rightarrow> 's"

text \<open>
  A call of \<open>write_predictions\<close> with positional arguments. The function has six
  parameters and no defaults, so any other number of arguments is a \<open>TypeError\<close>.
\<close>

datatype arg = ASeqs "int list list" | APath string | AFlag bool | AVocab "(string \<times> int) list"

definition write_predictions_call :: "arg list \<Rightarrow> py_error + string" where
  "write_predictions_call args =
     (case args of
        [ASeqs tokens, ASeqs labels, ASeqs predictions, APath path, AFlag indexed_labels,
         AVocab class_vocab] \<Rightarrow>
          write_predictions (map (map CInt) tokens) (map (map CInt) labels) predictions
            indexed_labels class_vocab
      | _ \<Rightarrow> Inl TypeError)"

text \<open>
  The body of the loop over the batches in \<open>train_model\<close>, lines 163 to 190. The loop
  carries the state, the list \<open>error\<close> of losses and the two lists of sequences.
\<close>

definition train_batch ::
  "('s, 'l) harness \<Rightarrow> 's \<times> 'l list \<times> int list list \<times> int list list \<Rightarrow> example list
     \<Rightarrow> py_error + ('s \<times> 'l list \<times> int list list \<times> int list list)" where
  "train_batch H st batch =
     (case st of (s, error, y_predicted, y_true) \<Rightarrow>
        and_then
          (if is_crf H
           then and_then (neg_log_likelihood H s batch) (\<lambda>(loss, s1).
                  Inr (loss, s1, y_predicted, y_true))
           else and_then (call_model H s batch) (\<lambda>((predicted, labels), s1).
                and_then (argmax_rows predicted) (\<lambda>indices.
                  (case regroup (zip indices labels) [] [] y_predicted y_true of
                     (y_predicted', y_true') \<Rightarrow>
                       Inr (nll_loss H predicted labels, s1, y_predicted', y_true')))))
          (\<lambda>(loss, s1, y_predicted', y_true').
             Inr (zero_grad H (optimizer_step H (backward H loss s1)), error @ [loss],
                  y_predicted', y_true')))"

fun train_batches ::
  "('s, 'l) harness \<Rightarrow> example list list \<Rightarrow> 's \<times> 'l list \<times> int list list \<times> int list list
     \<Rightarrow> py_error + ('s \<times> 'l list \<times> int list list \<times> int list list)" where
  "train_batches H [] st = Inr st"
| "train_batches H (batch # rest) st =
     and_then (train_batch H st batch) (\<lambda>st'. train_batches H rest st')"

text \<open>The body of the loop over the batches in \<open>evaluate_model\<close>, lines 90 to 114.\<close>

definition eval_batch ::
  "('s, 'l) harness \<Rightarrow> 's \<times> 'l list \<times> int list list \<times> int list list \<Rightarrow> example list
     \<Rightarrow> py_error + ('s \<times> 'l list \<times> int list list \<times> int list list)" where
  "eval_batch H st batch =
     (case st of (s, error, y_predicted, y_true) \<Rightarrow>
        and_then
          (if \<not> is_crf H
           then and_then (call_model H s batch) (\<lambda>((predicted, labels), s1).
                and_then (argmax_rows predicted) (\<lambda>indices.
                  Inr (indices, labels, s1, error @ [nll_loss H predicted labels])))
           else and_then (crf_call H s batch) (\<lambda>((predicted, labels), s1).
                  Inr (predicted, labels, s1, error)))
          (\<lambda>(predicted, labels, s1, error').
             (case regroup (zip predicted labels) [] [] y_predicted y_true of
                (y_predicted', y_true') \<Rightarrow> Inr (s1, error', y_predicted', y_true'))))"

fun eval_batches ::
  "('s, 'l) harness \<Rightarrow> example list list \<Rightarrow> 's \<times> 'l list \<times> int list list \<times> int list list
     \<Rightarrow> py_error + ('s \<times> 'l list \<times> int list list \<times> int list list)" where
  "eval_batches H [] st = Inr st"
| "eval_batches H (batch # rest) st =
     and_then (eval_batch H st batch) (\<lambda>st'. eval_batches H rest st')"

text \<open>
  \<open>evaluate_model\<close>. \<open>dataset\<close> is \<open>params["dataset"]\<close> of the global dictionary;
  \<open>class_vocab\<close> is bound only for \<open>movies\<close>. The call of \<open>write_predictions\<close> here passes
  all six arguments. The shell commands themselves are outside the model; the command
  string is built before the call.
\<close>

definition evaluate_model ::
  "('s, 'l) harness \<Rightarrow> string \<Rightarrow> (string \<times> int) list \<Rightarrow> example list list \<Rightarrow> 's
     \<Rightarrow> py_error + 's" where
  "evaluate_model H dataset cv_movies batches s =
     and_then (eval_batches H batches (s, [], [], [])) (\<lambda>(s1, error, y_predicted, y_true).
     and_then (if dataset = ''movies'' then Inr cv_movies
               else Inl UnboundLocalError) (\<lambda>class_vocab.
     and_then (write_predictions_call
                 [ASeqs y_true, ASeqs y_true, ASeqs y_predicted,
                  APath ''../output/dev_pred.txt'', AFlag True, AVocab class_vocab]) (\<lambda>written.
     and_then (py_format ''../output/%s/conlleval.pl < ../output/dev_pred.txt | head -n2''
                 [dataset]) (\<lambda>command.
     Inr s1))))"

text \<open>
  One pass of the loop \<open>for epoch in range(epochs)\<close> of \<open>train_model\<close>, lines 153 to 209.
  For a model that is not a CRF the call of \<open>write_predictions\<close> on line 201 passes four
  arguments, and line 202 applies \<open>%\<close> to a string without a conversion.
\<close>

definition train_epoch ::
  "('s, 'l) harness \<Rightarrow> string \<Rightarrow> (string \<times> int) list \<Rightarrow> example list list
     \<Rightarrow> example list list option \<Rightarrow> 's \<Rightarrow> py_error + 's" where
  "train_epoch H dataset cv_movies batches dev_batches s =
     and_then (train_batches H batches (zero_grad H s, [], [], []))
       (\<lambda>(s1, error, y_predicted, y_true).
     (let s2 = scheduler_step H (np_mean H error) s1 in
      and_then
        (if \<not> is_crf H
         then and_then (write_predictions_call
                          [ASeqs y_true, ASeqs y_true, ASeqs y_predicted,
                           APath ''../output/train_pred.txt'']) (\<lambda>written.
              and_then (py_format
                          ''../output/conlleval.pl < ../output/train_pred.txt | head -n2''
                          [dataset]) (\<lambda>command. Inr ()))
         else Inr ())
        (\<lambda>_.
           (case dev_batches of
              None \<Rightarrow> Inr s2
            | Some dev \<Rightarrow>
                and_then (evaluate_model H dataset cv_movies dev (model_eval H s2))
                  (\<lambda>s3. Inr (model_train H s3))))))"

text \<open>
  \<open>train_model\<close>: \<open>range(epochs)\<close> passes, numbered from 0. The data loaders shuffle, so
  the batches of a pass are given per epoch: \<open>train_loader epoch\<close>, and \<open>dev_loader epoch\<close>
  when development data is passed.
\<close>

fun train_epochs ::
  "('s, 'l) harness \<Rightarrow> string \<Rightarrow> (string \<times> int) list \<Rightarrow> (nat \<Rightarrow> example list list)
     \<Rightarrow> (nat \<Rightarrow> example list list) option \<Rightarrow> nat \<Rightarrow> nat \<Rightarrow> 's \<Rightarrow> py_error + 's" where
  "train_epochs H dataset cv train_loader dev_loader 0 epoch s = Inr s"
| "train_epochs H dataset cv train_loader dev_loader (Suc n) epoch s =
     and_then (train_epoch H dataset cv (train_loader epoch)
                 (map_option (\<lambda>f. f epoch) dev_loader) s)
       (\<lambda>s'. train_epochs H dataset cv train_loader dev_loader n (Suc epoch) s')"

definition train_model ::
  "('s, 'l) harness \<Rightarrow> string \<Rightarrow> (string \<times> int) list \<Rightarrow> (nat \<Rightarrow> example list list)
     \<Rightarrow> (nat \<Rightarrow> example list list) option \<Rightarrow> int \<Rightarrow> 's \<Rightarrow> py_error + 's" where
  "train_model H dataset cv train_loader dev_loader epochs s =
     train_epochs H dataset cv train_loader dev_loader (nat epochs) 0 s"

text \<open>
  A small harness on which training can be run: a model that is not a CRF and gives one
  row of scores, \<open>[0, 1]\<close>, with the gold label 0 for every batch; losses are numbers
  that nothing is done with.
\<close>

definition example_harness :: "(unit, nat) harness" where
  "example_harness =
     \<lparr>is_crf = False,
      call_model = (\<lambda>s batch. Inr (([[0, 1]], [0]), s)),
      crf_call = (\<lambda>s batch. Inl TypeError),
      neg_log_likelihood = (\<lambda>s batch. Inl AttributeError),
      nll_loss = (\<lambda>predicted labels. length labels),
      backward = (\<lambda>loss s. s),
      optimizer_step = (\<lambda>s. s),
      zero_grad = (\<lambda>s. s),
      scheduler_step = (\<lambda>loss s. s),
      np_mean = (\<lambda>losses. 0),
      model_eval = (\<lambda>s. s),
      model_train = (\<lambda>s. s)\<rparr>"

section \<open>Theorems\<close>


subsection \<open>Regrouping predictions by example\<close>

lemma regroup_count:
  "length (fst (regroup xs tmp_pred tmp_true y_predicted y_true))
     = length y_predicted + length (filter (\<lambda>p. snd p = - 1) xs)"
  by (induction xs tmp_pred tmp_true y_predicted y_true rule: regroup.induct) auto

lemma regroup_no_marker:
  "\<forall>p \<in> set xs. snd p \<noteq> - 1 \<Longrightarrow>
   regroup xs tmp_pred tmp_true y_predicted y_true = (y_predicted, y_true)"
  by (induction xs tmp_pred tmp_true y_predicted y_true rule: regroup.induct) auto

text \<open>
  Claim C1, on the code. The loop emits one pair of sequences for every gold label \<open>-1\<close>
  it meets, and nothing for what follows the last \<open>-1\<close> of a batch. A batch padded to
  the length of its longest example has no \<open>-1\<close> after that example, and several after
  a shorter one. So a batch of the single example with gold labels \<open>[0, 1]\<close> is
  flattened to \<open>[0, 1]\<close> and yields no pair at all; and the example batch, with
  lengths 1 and 3, is flattened to \<open>[1, -1, -1, 0, 1, 0]\<close> and yields the first example,
  then an empty pair, and never the second example.
\<close>

theorem regroup_loses_longest_example:
  "concat (fst (snd (batch_sequence 9 [([7, 8], [0, 1])]))) = [0, 1] \<and>
   regroup (zip [1, 0] [0, 1]) [] [] [] [] = ([], []) \<and>
   concat (fst (snd (batch_sequence 9 example_batch))) = [1, - 1, - 1, 0, 1, 0] \<and>
   regroup (zip [1, 1, 1, 1, 1, 1] [1, - 1, - 1, 0, 1, 0]) [] [] [] [] = ([[1], []], [[1], []])"
  by (simp add: batch_sequence_def max_len_def pad_to_def example_batch_def numeral_2_eq_2)

subsection \<open>The training loop\<close>

lemma write_predictions_call_four:
  "write_predictions_call [a, b, c, d] = Inl TypeError"
  by (simp add: write_predictions_call_def split: arg.splits list.splits)

lemma train_epoch_after_batches:
  assumes "\<not> is_crf H"
    and "train_batches H batches (zero_grad H s, [], [], []) = Inr st"
  shows "train_epoch H dataset cv batches dev s = Inl TypeError"
  using assms
  by (simp add: train_epoch_def and_then_def write_predictions_call_four Let_def
      split: prod.splits)

lemma train_epoch_raises:
  assumes "\<not> is_crf H"
  shows "\<exists>e. train_epoch H dataset cv batches dev s = Inl e"
proof (cases "train_batches H batches (zero_grad H s, [], [], [])")
  case (Inl e)
  then show ?thesis by (simp add: train_epoch_def and_then_def)
next
  case (Inr st)
  from train_epoch_after_batches [OF assms Inr] show ?thesis by blast
qed

text \<open>
  Claim C2, on the code. For a model that is not a CRF and a positive number of epochs
  \<open>train_model\<close> never returns normally: it ends with an error in its first epoch. When
  the batches of that epoch go through (forward pass, loss, backward pass, optimiser
  step, zeroing of the gradients, recording of the loss), the error is the \<open>TypeError\<close>
  of the call of \<open>write_predictions\<close> with four arguments for six parameters, right
  after the scheduler step; no second epoch is run.
\<close>

theorem train_model_raises:
  "\<not> is_crf H \<and> 0 < epochs \<longrightarrow>
     (\<exists>e. train_model H dataset cv train_loader dev_loader epochs s = Inl e) \<and>
     (\<forall>st. train_batches H (train_loader 0) (zero_grad H s, [], [], []) = Inr st \<longrightarrow>
        train_model H dataset cv train_loader dev_loader epochs s = Inl TypeError)"
proof (intro impI conjI allI)
  assume a: "\<not> is_crf H \<and> 0 < epochs"
  then obtain n where n: "nat epochs = Suc n" by (cases "nat epochs") auto
  from a have nc: "\<not> is_crf H" by simp
  from train_epoch_raises [OF nc] obtain e where
    "train_epoch H dataset cv (train_loader 0) (map_option (\<lambda>f. f 0) dev_loader) s = Inl e"
    by metis
  then show "\<exists>e. train_model H dataset cv train_loader dev_loader epochs s = Inl e"
    by (simp add: train_model_def n and_then_def)
  fix st assume "train_batches H (train_loader 0) (zero_grad H s, [], [], []) = Inr st"
  with a have "train_epoch H dataset cv (train_loader 0) (map_option (\<lambda>f. f 0) dev_loader) s
      = Inl TypeError"
    by (intro train_epoch_after_batches) simp_all
  then show "train_model H dataset cv train_loader dev_loader epochs s = Inl TypeError"
    by (simp add: train_model_def n and_then_def)
qed

text \<open>
  The theorem at the example harness with two batches and two epochs: the batches of the
  first epoch go through, two losses are recorded, and the call raises \<open>TypeError\<close>.
\<close>

theorem train_model_raises_witness:
  "train_batches example_harness [[([5], [0])], [([6], [0])]] ((), [], [], [])
     = Inr ((), [1, 1], [], [])
   \<and> train_model example_harness ''movies'' [(''O'', 0), (''B'', 1)]
       (\<lambda>epoch. [[([5], [0])], [([6], [0])]]) None 2 () = Inl TypeError"
proof -
  have tb: "train_batches example_harness [[([5], [0])], [([6], [0])]] ((), [], [], [])
     = Inr ((), [1, 1], [], [])"
    by (simp add: example_harness_def train_batch_def and_then_def argmax_rows_def
        argmax_row_def)
  have h: "\<not> is_crf example_harness \<and> 0 < (2 :: int)"
    by (simp add: example_harness_def)
  have z: "zero_grad example_harness () = ()" by simp
  from train_model_raises [of example_harness 2 "''movies''" "[(''O'', 0), (''B'', 1)]"
      "\<lambda>epoch. [[([5], [0])], [([6], [0])]]" None "()"] h tb
  have "train_model example_harness ''movies'' [(''O'', 0), (''B'', 1)]
       (\<lambda>epoch. [[([5], [0])], [([6], [0])]]) None 2 () = Inl TypeError"
    by (simp only: z) blast
  with tb show ?thesis by blast
qed

subsection \<open>Building the encoder-decoder model\<close>

lemma and_then_raises:
  "(\<And>v. x = Inr v \<Longrightarrow> \<exists>e. f v = Inl e) \<Longrightarrow> \<exists>e. and_then x f = Inl e"
  by (cases x) (auto simp: and_then_def)

lemma and_then_Inr_iff:
  "and_then x f = Inr r \<longleftrightarrow> (\<exists>v. x = Inr v \<and> f v = Inr r)"
  by (cases x) (auto simp: and_then_def)

lemma encoder_args_shape:
  assumes "encoder_args params weights class_vocab = Inr args"
  shows "\<exists>h d b f n1 n2.
           args = [PMatrix weights, PInt 20, h, PInt (int (length class_vocab)), d, b, f, n1, n2]"
  using assms unfolding encoder_args_def Let_def
  by (auto simp: and_then_Inr_iff)

lemma bind_init_nine:
  "bind_init [a1, a2, a3, a4, a5, a6, a7, a8, a9] = Inr [a1, a2, a3, a4, a5, a6, a7, a8, a9, PInt 10]"
  by (simp add: bind_init_def init_defaults_def)

lemma init_shifted:
  "EncoderDecoderRNN [a1, PInt 20, a3, a4, a5, a6, a7, a8, a9] = Inl AttributeError"
  by (simp add: EncoderDecoderRNN_def bind_init_nine and_then_def init_body_def shape1_def)

lemma construct_encoder_raises:
  "\<exists>e. construct_model other params weights class_vocab c2v (PStr ''encoder'') = Inl e"
proof -
  have "\<exists>e. and_then (encoder_args params weights class_vocab)
          (\<lambda>args. and_then (EncoderDecoderRNN args) (\<lambda>m. Inr (Encoder m :: 'd built_model))) = Inl e"
  proof (rule and_then_raises)
    fix args assume "encoder_args params weights class_vocab = Inr args"
    from encoder_args_shape [OF this] obtain h d b f n1 n2 where
      "args = [PMatrix weights, PInt 20, h, PInt (int (length class_vocab)), d, b, f, n1, n2]"
      by blast
    then show "\<exists>e. and_then (EncoderDecoderRNN args) (\<lambda>m. Inr (Encoder m :: 'd built_model)) = Inl e"
      by (simp add: init_shifted and_then_def)
  qed
  then show ?thesis by (simp add: construct_model_def)
qed

lemma construct_encoder_not_Inr:
  "construct_model other params weights class_vocab c2v (PStr ''encoder'') \<noteq> Inr r"
  using construct_encoder_raises [of other params weights class_vocab c2v] by auto

lemma pick_encoder_raises:
  assumes "params ''model'' = Some (PStr ''encoder'')"
  shows "\<exists>e. pick_model_transform dm other params = Inl e"
  unfolding pick_model_transform_def
  apply (intro and_then_raises)
  apply (simp add: assms dict_get_def split: prod.splits)
  apply (intro allI impI and_then_raises)
  apply (auto simp: assms dict_get_def construct_encoder_not_Inr)
  done

text \<open>
  Claim C3. For every parameter dictionary whose \<open>model\<close> is \<open>encoder\<close>,
  \<open>pick_model_transform\<close> raises and returns no model, whatever the collaborators do.
  When the arguments of the constructor call can be evaluated, they bind one position
  too far to the left, since the call leaves out \<open>device\<close>: the weight matrix is bound to
  \<open>device\<close>, the tag-embedding size 20 to \<open>w2v_weights\<close>, the hidden size to
  \<open>decoder_embedding_size\<close>, and so on; the constructor then raises \<open>AttributeError\<close> at
  \<open>w2v_weights.shape\<close>.
\<close>

theorem pick_model_transform_encoder_raises:
  "(params ''model'' = Some (PStr ''encoder'') \<longrightarrow>
      (\<exists>e. pick_model_transform dm other params = Inl e))
   \<and> (encoder_args params weights class_vocab = Inr args \<longrightarrow>
        (\<exists>h d b f n1 n2.
           bind_init args =
             Inr [PMatrix weights, PInt 20, h, PInt (int (length class_vocab)), d, b, f, n1, n2,
                  PInt 10])
        \<and> EncoderDecoderRNN args = Inl AttributeError)"
proof (intro conjI impI)
  assume "params ''model'' = Some (PStr ''encoder'')"
  then show "\<exists>e. pick_model_transform dm other params = Inl e"
    by (rule pick_encoder_raises)
next
  assume a: "encoder_args params weights class_vocab = Inr args"
  from encoder_args_shape [OF a] obtain h d b f n1 n2 where
    args: "args = [PMatrix weights, PInt 20, h, PInt (int (length class_vocab)), d, b, f, n1, n2]"
    by blast
  show "\<exists>h d b f n1 n2.
           bind_init args =
             Inr [PMatrix weights, PInt 20, h, PInt (int (length class_vocab)), d, b, f, n1, n2,
                  PInt 10]"
    unfolding args bind_init_nine by blast
  show "EncoderDecoderRNN args = Inl AttributeError"
    unfolding args by (rule init_shifted)
qed

text \<open>
  The theorem at the dictionary that \<open>parse_args\<close> builds for \<open>--model=encoder
  --sequence=tokens --dataset=movies\<close>, with collaborators that all succeed: the call
  raises, and the error is the \<open>AttributeError\<close> of the constructor.
\<close>

theorem pick_model_transform_encoder_raises_witness:
  "(\<exists>e. pick_model_transform
          \<lparr>w2v_matrix_vocab_generator =
              (\<lambda>p. Inr ([''<UNK>'' \<mapsto> 0, ''<padding>'' \<mapsto> 1], [[1 / 2, 0], [0, 0]])),
            class_vocab_movies = [(''O'', 0), (''B-actor'', 1)],
            InitTransform = (\<lambda>s v c cv. Inr ()),
            DropTransform = (\<lambda>r u p. Inr ())\<rparr>
          (\<lambda>name ps w c cw. (Inl TypeError :: py_error + unit))
          (build_res Map.empty (Finite (1 / 100)) (Finite 0) (Finite 0) (Finite 10) 80 30 200
             ''tokens'' ''encoder'' ''movies'') = Inl e)
   \<and> pick_model_transform
          \<lparr>w2v_matrix_vocab_generator =
              (\<lambda>p. Inr ([''<UNK>'' \<mapsto> 0, ''<padding>'' \<mapsto> 1], [[1 / 2, 0], [0, 0]])),
            class_vocab_movies = [(''O'', 0), (''B-actor'', 1)],
            InitTransform = (\<lambda>s v c cv. Inr ()),
            DropTransform = (\<lambda>r u p. Inr ())\<rparr>
          (\<lambda>name ps w c cw. (Inl TypeError :: py_error + unit))
          (build_res Map.empty (Finite (1 / 100)) (Finite 0) (Finite 0) (Finite 10) 80 30 200
             ''tokens'' ''encoder'' ''movies'') = Inl AttributeError"
proof (rule conjI)
  let ?params = "build_res Map.empty (Finite (1 / 100)) (Finite 0) (Finite 0) (Finite 10)
                   80 30 200 ''tokens'' ''encoder'' ''movies''"
  have m: "?params ''model'' = Some (PStr ''encoder'')"
    by (simp add: build_res_def)
  from pick_model_transform_encoder_raises [of ?params] m
  show "\<exists>e. pick_model_transform
          \<lparr>w2v_matrix_vocab_generator =
              (\<lambda>p. Inr ([''<UNK>'' \<mapsto> 0, ''<padding>'' \<mapsto> 1], [[1 / 2, 0], [0, 0]])),
            class_vocab_movies = [(''O'', 0), (''B-actor'', 1)],
            InitTransform = (\<lambda>s v c cv. Inr ()),
            DropTransform = (\<lambda>r u p. Inr ())\<rparr>
          (\<lambda>name ps w c cw. (Inl TypeError :: py_error + unit))
          ?params = Inl e"
    by blast
next
  show "pick_model_transform
          \<lparr>w2v_matrix_vocab_generator =
              (\<lambda>p. Inr ([''<UNK>'' \<mapsto> 0, ''<padding>'' \<mapsto> 1], [[1 / 2, 0], [0, 0]])),
            class_vocab_movies = [(''O'', 0), (''B-actor'', 1)],
            InitTransform = (\<lambda>s v c cv. Inr ()),
            DropTransform = (\<lambda>r u p. Inr ())\<rparr>
          (\<lambda>name ps w c cw. (Inl TypeError :: py_error + unit))
          (build_res Map.empty (Finite (1 / 100)) (Finite 0) (Finite 0) (Finite 10) 80 30 200
             ''tokens'' ''encoder'' ''movies'') = Inl AttributeError"
    by (simp add: pick_model_transform_def build_res_def opt_or_none_def opt_or_def
        dict_get_def and_then_def construct_model_def encoder_args_def py_not_def truthy_def
        EncoderDecoderRNN_def bind_init_def init_defaults_def init_body_def shape1_def)
qed

subsection \<open>Shapes in the forward pass\<close>






























subsection \<open>The decoder loop\<close>



subsection \<open>The first input of the decoder\<close>

text \<open>
  Claim C5, on the code. The comment in the source says that the first token passed to
  the decoder is \<open>tagset_size\<close>, mapped to the last row of the tag embedding, which has
  \<open>tagset_size + 1\<close> rows. The table has that many rows, but the first input is the
  tensor of zeros for every batch element and every \<open>tagset_size\<close>: \<open>torch.add\<close> builds
  a new tensor, \<open>0 + tagset_size * 0\<close>, and the statement drops it.
\<close>

theorem start_input_stays_zero:
  "start_input m n = replicate n [0] \<and> embedding_decoder_rows m = tagset_size m + 1"
  by (simp add: start_input_def embedding_decoder_rows_def Let_def)

text \<open>The same at a model with three tags and a batch of two: the input is 0, not 3.\<close>

theorem start_input_example:
  "start_input \<lparr>device = PNone, hidden_dim = 4, tagset_size = 3, embedding_dim = 2,
      decoder_embedding_size = 20, w2v_weights = [[0, 0]], bidirectional = False\<rparr> 2
   = [[0], [0]]"
  by (simp add: start_input_def Let_def numeral_2_eq_2)

subsection \<open>Greedy feedback\<close>

lemma decode_loop_split:
  "decode_loop L (a + b) s inp hid res =
     and_then (decode_loop L a s inp hid res)
       (\<lambda>(res1, inp1, hid1, s1). decode_loop L b s1 inp1 hid1 res1)"
proof (induction a arbitrary: s inp hid res)
  case 0
  show ?case by (simp add: and_then_def)
next
  case (Suc a)
  show ?case
    by (simp add: Suc.IH and_then_def split: prod.splits sum.splits)
qed

lemma decode_loop_last:
  "decode_loop L (Suc k) s inp hid res = Inr (res1, inp1, hid1, s1) \<Longrightarrow>
   res1 \<noteq> [] \<and> (\<exists>topi. topk1 (last res1) = Inr topi \<and> inp1 = squeeze1 topi)"
proof (induction k arbitrary: s inp hid res)
  case 0
  then show ?case by (auto split: prod.splits sum.splits)
next
  case (Suc k)
  obtain dout hid' s' where df: "decoder_forward L s inp hid = ((dout, hid'), s')"
    by (metis surj_pair)
  from Suc.prems obtain topi where tk: "topk1 dout = Inr topi"
    and rest: "decode_loop L (Suc k) s' (squeeze1 topi) hid' (res @ [dout]) = Inr (res1, inp1, hid1, s1)"
    by (simp add: df split: sum.splits)
  from Suc.IH [OF rest] show ?case .
qed

lemma decode_loop_one:
  "decode_loop L 1 s inp hid res = Inr r \<Longrightarrow>
   fst r = res @ [fst (fst (decoder_forward L s inp hid))]"
  by (auto split: prod.splits sum.splits)

lemma max_len_tokens: "max_len batch = foldr max (map length (map fst batch)) 0"
  by (simp add: max_len_def comp_def)

lemma encode_tokens:
  assumes "map fst b1 = map fst b2"
  shows "fst (encode m L s b1) = fst (encode m L s b2)"
    and "fst (snd (encode m L s b1)) = fst (snd (encode m L s b2))"
    and "snd (snd (snd (encode m L s b1))) = snd (snd (snd (encode m L s b2)))"
    and "length b1 = length b2"
proof -
  from assms have ml: "max_len b1 = max_len b2" by (simp add: max_len_tokens)
  from assms show len: "length b1 = length b2" by (metis length_map)
  have "map (\<lambda>ex. pad_to n p (fst ex)) b = map (pad_to n p) (map fst b)" for n p and b :: "example list"
    by simp
  with assms ml have data: "map (\<lambda>ex. pad_to (max_len b1) (padding_index m) (fst ex)) b1
      = map (\<lambda>ex. pad_to (max_len b2) (padding_index m) (fst ex)) b2"
    by metis
  show "fst (encode m L s b1) = fst (encode m L s b2)"
    by (simp add: encode_def batch_sequence_def Let_def data len split: prod.splits)
  show "fst (snd (encode m L s b1)) = fst (snd (encode m L s b2))"
    by (simp add: encode_def batch_sequence_def Let_def data len split: prod.splits)
  show "snd (snd (snd (encode m L s b1))) = snd (snd (snd (encode m L s b2)))"
    by (simp add: encode_def batch_sequence_def Let_def data len split: prod.splits)
qed

lemma decode_tokens:
  assumes "map fst b1 = map fst b2"
  shows "decode m L s b1 = decode m L s b2"
proof -
  note t = encode_tokens(1-3) [OF assms, of m L s]
  note len = encode_tokens(4) [OF assms]
  obtain eo he l1 s3 where e1: "encode m L s b1 = (eo, he, l1, s3)" by (metis surj_pair)
  obtain eo' he' l2 s3' where e2: "encode m L s b2 = (eo', he', l2, s3')" by (metis surj_pair)
  from t e1 e2 have "eo' = eo" "he' = he" "s3' = s3" by simp_all
  then show ?thesis by (simp add: decode_def e1 e2 len)
qed

lemma forward_tokens:
  assumes "map fst b1 = map fst b2"
  shows "map_sum id (\<lambda>r. (fst (fst r), snd r)) (forward m L s b1)
       = map_sum id (\<lambda>r. (fst (fst r), snd r)) (forward m L s b2)"
proof -
  obtain eo he l1 s3 where e1: "encode m L s b1 = (eo, he, l1, s3)" by (metis surj_pair)
  obtain eo' he' l2 s3' where e2: "encode m L s b2 = (eo', he', l2, s3')" by (metis surj_pair)
  show ?thesis
    by (simp add: forward_def e1 e2 decode_tokens [OF assms] and_then_def
        split: sum.splits prod.splits)
qed

text \<open>
  Claim C6. Whatever the layers compute and whatever their state, so in training and in
  evaluation mode alike: after every step of the decoder loop the input for the next
  step is the arg-max of the log-probabilities that the step just appended to
  \<open>results\<close>; the loop continues from there, and the next output is the decoder applied
  to that input. The gold labels are never fed back: two batches with the same tokens
  give the same decoder outputs, the same log-probabilities and the same final state,
  whatever their labels.
\<close>

theorem greedy_feedback:
  "(decode_loop L (Suc k) s inp hid res = Inr (res1, inp1, hid1, s1) \<longrightarrow>
      (\<exists>topi. topk1 (last res1) = Inr topi \<and> inp1 = squeeze1 topi) \<and>
      decode_loop L (Suc k + n) s inp hid res = decode_loop L n s1 inp1 hid1 res1 \<and>
      (\<forall>r. decode_loop L 1 s1 inp1 hid1 res1 = Inr r \<longrightarrow>
           fst r = res1 @ [fst (fst (decoder_forward L s1 inp1 hid1))]))
   \<and> (map fst batch1 = map fst batch2 \<longrightarrow>
        decode m L s' batch1 = decode m L s' batch2 \<and>
        map_sum id (\<lambda>r. (fst (fst r), snd r)) (forward m L s' batch1)
          = map_sum id (\<lambda>r. (fst (fst r), snd r)) (forward m L s' batch2))"
proof (intro conjI impI allI)
  assume a: "decode_loop L (Suc k) s inp hid res = Inr (res1, inp1, hid1, s1)"
  from decode_loop_last [OF a]
  show "\<exists>topi. topk1 (last res1) = Inr topi \<and> inp1 = squeeze1 topi" by blast
  show "decode_loop L (Suc k + n) s inp hid res = decode_loop L n s1 inp1 hid1 res1"
    by (simp only: decode_loop_split a) (simp add: and_then_def)
  fix r assume "decode_loop L 1 s1 inp1 hid1 res1 = Inr r"
  then show "fst r = res1 @ [fst (fst (decoder_forward L s1 inp1 hid1))]"
    by (rule decode_loop_one)
next
  assume t: "map fst batch1 = map fst batch2"
  show "decode m L s' batch1 = decode m L s' batch2" by (rule decode_tokens [OF t])
  show "map_sum id (\<lambda>r. (fst (fst r), snd r)) (forward m L s' batch1)
          = map_sum id (\<lambda>r. (fst (fst r), snd r)) (forward m L s' batch2)"
    by (rule forward_tokens [OF t])
qed

text \<open>
  The theorem at the example layers: one step from the start input gives the
  log-probabilities \<open>[-2, -1]\<close> for both examples, and the next input is their arg-max,
  the index 1; and the example batch with other gold labels decodes to the same outputs.
\<close>

theorem greedy_feedback_witness:
  "decode_loop example_layers (Suc 0) () [[0], [0]] [[[0], [0]]] []
     = Inr ([[[[- 2, - 1]], [[- 2, - 1]]]], [[1], [1]], [[[0], [0]]], ())
   \<and> (\<exists>topi. topk1 (last [[[[- 2, - 1]], [[- 2, - 1]]]]) = Inr topi \<and> [[1], [1]] = squeeze1 topi)
   \<and> decode example_model example_layers () example_batch
     = decode example_model example_layers () [([5], [0]), ([6, 7, 8], [1, 1, 1])]"
proof -
  have run: "decode_loop example_layers (Suc 0) () [[0], [0]] [[[0], [0]]] []
     = Inr ([[[[- 2, - 1]], [[- 2, - 1]]]], [[1], [1]], [[[0], [0]]], ())"
    by (simp add: example_layers_def decoder_forward_def relu_def unsqueeze1_def squeeze1_def
        topk1_def argmax_row_def and_then_def)
  have toks: "map fst example_batch = map fst [([5], [0]), ([6, 7, 8], [1, 1, 1 :: int])]"
    by (simp add: example_batch_def)
  note g = greedy_feedback [of example_layers 0 "()" "[[0], [0]]" "[[[0], [0]]]" "[]"
      "[[[[- 2, - 1]], [[- 2, - 1]]]]" "[[1], [1]]" "[[[0], [0]]]" "()" 0
      example_batch "[([5], [0]), ([6, 7, 8], [1, 1, 1])]" example_model "()"]
  from g run have "\<exists>topi. topk1 (last [[[[- 2, - 1]], [[- 2, - 1]]]]) = Inr topi
      \<and> [[1], [1]] = squeeze1 topi"
    by blast
  moreover from g toks have "decode example_model example_layers () example_batch
     = decode example_model example_layers () [([5], [0]), ([6, 7, 8], [1, 1, 1])]"
    by blast
  ultimately show ?thesis using run by blast
qed

subsection \<open>The hand-over of the hidden state\<close>

lemma map2_append_length:
  "length h0 = length h1 \<Longrightarrow> \<forall>r \<in> set h0. length r = a \<Longrightarrow> \<forall>r \<in> set h1. length r = b \<Longrightarrow>
   \<forall>r \<in> set (map2 (@) h0 h1). length r = a + b"
  by (induction h0 h1 rule: list_induct2) auto

text \<open>
  What the hand-over computes. For a bidirectional encoder, whose two direction slices
  have \<open>gru_encoder_hidden_size\<close> features each, the decoder is handed the concatenation
  of the two slices along the feature axis, row by row; its rows have
  \<open>2 * (hidden_dim // 2)\<close> features, which is the decoder GRU's size exactly when
  \<open>hidden_dim\<close> is even. For a unidirectional encoder the decoder is handed the
  encoder's hidden state unchanged.
\<close>

lemma bridge_sizes:
  "(bidirectional m \<and> length h0 = length h1 \<and>
      (\<forall>r \<in> set h0. length r = gru_encoder_hidden_size m) \<and>
      (\<forall>r \<in> set h1. length r = gru_encoder_hidden_size m) \<longrightarrow>
        bridge m [h0, h1] = Inr [map2 (@) h0 h1] \<and>
        length (map2 (@) h0 h1) = length h0 \<and>
        (\<forall>i < length h0. map2 (@) h0 h1 ! i = h0 ! i @ h1 ! i) \<and>
        (\<forall>r \<in> set (map2 (@) h0 h1). length r = 2 * (hidden_dim m div 2)) \<and>
        (even (hidden_dim m) \<longrightarrow>
           (\<forall>r \<in> set (map2 (@) h0 h1). length r = gru_decoder_hidden_size m)))
   \<and> (\<not> bidirectional m \<longrightarrow> bridge m hidden_encoder = Inr hidden_encoder)"
proof (intro conjI impI)
  assume a: "bidirectional m \<and> length h0 = length h1 \<and>
      (\<forall>r \<in> set h0. length r = gru_encoder_hidden_size m) \<and>
      (\<forall>r \<in> set h1. length r = gru_encoder_hidden_size m)"
  then have sz: "gru_encoder_hidden_size m = hidden_dim m div 2"
    by (simp add: gru_encoder_hidden_size_def)
  from a show "bridge m [h0, h1] = Inr [map2 (@) h0 h1]"
    by (simp add: bridge_def)
  from a show "length (map2 (@) h0 h1) = length h0" by simp
  from a show "\<forall>i < length h0. map2 (@) h0 h1 ! i = h0 ! i @ h1 ! i" by simp
  from a sz have "\<forall>r \<in> set (map2 (@) h0 h1). length r = hidden_dim m div 2 + hidden_dim m div 2"
    by (intro map2_append_length) simp_all
  then show all: "\<forall>r \<in> set (map2 (@) h0 h1). length r = 2 * (hidden_dim m div 2)"
    by simp
  assume "even (hidden_dim m)"
  with all show "\<forall>r \<in> set (map2 (@) h0 h1). length r = gru_decoder_hidden_size m"
    by (simp add: gru_decoder_hidden_size_def)
next
  assume "\<not> bidirectional m"
  then show "bridge m hidden_encoder = Inr hidden_encoder" by (simp add: bridge_def)
qed

text \<open>
  The lemma at \<open>hidden_dim = 4\<close>: two slices of two features for a batch of two, and the
  unidirectional case.
\<close>

lemma bridge_sizes_example:
  "bridge \<lparr>device = PNone, hidden_dim = 4, tagset_size = 2, embedding_dim = 1,
      decoder_embedding_size = 20, w2v_weights = [[0]], bidirectional = True\<rparr>
      [[[1, 2], [3, 4]], [[5, 6], [7, 8]]] = Inr [[[1, 2, 5, 6], [3, 4, 7, 8]]]
   \<and> bridge \<lparr>device = PNone, hidden_dim = 4, tagset_size = 2, embedding_dim = 1,
      decoder_embedding_size = 20, w2v_weights = [[0]], bidirectional = False\<rparr>
      [[[1, 2, 3, 4]]] = Inr [[[1, 2, 3, 4]]]"
proof -
  let ?m = "\<lparr>device = PNone, hidden_dim = 4, tagset_size = 2, embedding_dim = 1,
      decoder_embedding_size = 20, w2v_weights = [[0]], bidirectional = True\<rparr>"
  let ?u = "\<lparr>device = PNone, hidden_dim = 4, tagset_size = 2, embedding_dim = 1,
      decoder_embedding_size = 20, w2v_weights = [[0]], bidirectional = False\<rparr>"
  have h: "bidirectional ?m \<and> length [[1, 2], [3, 4 :: real]] = length [[5, 6], [7, 8 :: real]] \<and>
      (\<forall>r \<in> set [[1, 2], [3, 4 :: real]]. length r = gru_encoder_hidden_size ?m) \<and>
      (\<forall>r \<in> set [[5, 6], [7, 8 :: real]]. length r = gru_encoder_hidden_size ?m)"
    by (simp add: gru_encoder_hidden_size_def)
  from bridge_sizes [of ?m "[[1, 2], [3, 4]]" "[[5, 6], [7, 8]]"] h
  have 1: "bridge ?m [[[1, 2], [3, 4]], [[5, 6], [7, 8]]]
      = Inr [map2 (@) [[1, 2], [3, 4]] [[5, 6], [7, 8]]]"
    by blast
  have u: "\<not> bidirectional ?u" by simp
  from bridge_sizes [of ?u _ _ "[[[1, 2, 3, 4]]]"] u
  have 2: "bridge ?u [[[1, 2, 3, 4]]] = Inr [[[1, 2, 3, 4]]]" by blast
  from 1 2 show ?thesis by simp
qed

text \<open>
  Claim C7, on the code. The claim says that for a bidirectional encoder the decoder
  receives a hidden state of size \<open>hidden_dim\<close>. With \<open>hidden_dim = 3\<close> and a
  bidirectional encoder, for a batch of one example: the encoder GRU has one feature per
  direction, so each of the two direction slices has one feature (the shape
  \<open>init_hidden_encoder\<close> gives the encoder's state); the hand-over returns their
  concatenation, whose row has two features, while the decoder GRU, which is given this
  state on the first decoder step, is built with three. The unidirectional model with
  the same \<open>hidden_dim\<close> hands over a state of three features, the decoder GRU's size.
\<close>

theorem bridge_odd_hidden_dim_mismatch:
  "bidirectional \<lparr>device = PNone, hidden_dim = 3, tagset_size = 2, embedding_dim = 1,
      decoder_embedding_size = 20, w2v_weights = [[0]], bidirectional = True\<rparr>
   \<and> gru_encoder_hidden_size \<lparr>device = PNone, hidden_dim = 3, tagset_size = 2,
      embedding_dim = 1, decoder_embedding_size = 20, w2v_weights = [[0]],
      bidirectional = True\<rparr> = 1
   \<and> gru_decoder_hidden_size \<lparr>device = PNone, hidden_dim = 3, tagset_size = 2,
      embedding_dim = 1, decoder_embedding_size = 20, w2v_weights = [[0]],
      bidirectional = True\<rparr> = 3
   \<and> init_hidden_encoder \<lparr>device = PNone, hidden_dim = 3, tagset_size = 2, embedding_dim = 1,
      decoder_embedding_size = 20, w2v_weights = [[0]], bidirectional = True\<rparr> 1 = [[[0]], [[0]]]
   \<and> bridge \<lparr>device = PNone, hidden_dim = 3, tagset_size = 2, embedding_dim = 1,
      decoder_embedding_size = 20, w2v_weights = [[0]], bidirectional = True\<rparr> [[[0]], [[0]]]
       = Inr [[[0, 0]]]
   \<and> length [0 :: real, 0] \<noteq> gru_decoder_hidden_size \<lparr>device = PNone, hidden_dim = 3,
      tagset_size = 2, embedding_dim = 1, decoder_embedding_size = 20, w2v_weights = [[0]],
      bidirectional = True\<rparr>
   \<and> bridge \<lparr>device = PNone, hidden_dim = 3, tagset_size = 2, embedding_dim = 1,
      decoder_embedding_size = 20, w2v_weights = [[0]], bidirectional = False\<rparr> [[[0, 0, 0]]]
       = Inr [[[0, 0, 0]]]
   \<and> length [0 :: real, 0, 0] = gru_decoder_hidden_size \<lparr>device = PNone, hidden_dim = 3,
      tagset_size = 2, embedding_dim = 1, decoder_embedding_size = 20, w2v_weights = [[0]],
      bidirectional = False\<rparr>"
proof -
  have d: "(3 :: nat) div 2 = Suc 0" by simp
  have r: "replicate 2 x = [x, x]" for x :: "'a"
    by (simp add: numeral_2_eq_2)
  show ?thesis
    by (simp add: bridge_def init_hidden_encoder_def gru_encoder_hidden_size_def
        gru_decoder_hidden_size_def d r)
qed

subsection \<open>The result of the forward pass\<close>



subsection \<open>The configuration checks\<close>

lemma and_then_Inr: "and_then (Inr v) f = f v"
  by (simp add: and_then_def)

lemma and_then_assert:
  "and_then (py_assert c msg) f = (if c then f () else Inl (AssertionError msg))"
  by (simp add: and_then_def py_assert_def)

lemma parse_opts_valid:
  assumes "py_dict optlist ''--help'' = None"
    and "opt_float float_of (py_dict optlist) ''--lr'' (Finite (1 / 100)) = Inr lr"
    and "opt_float float_of (py_dict optlist) ''--drop'' (Finite 0) = Inr drp"
    and "opt_float float_of (py_dict optlist) ''--decay'' (Finite 0) = Inr decay"
    and "opt_float float_of (py_dict optlist) ''--embedding_norm'' (Finite 10) = Inr en"
    and "opt_int int_of (py_dict optlist) ''--batch'' 80 = Inr batch"
    and "opt_int int_of (py_dict optlist) ''--epochs'' 30 = Inr epochs"
    and "opt_int int_of (py_dict optlist) ''--hidden_size'' 200 = Inr hidden_size"
    and "all_checks lr drp decay en batch epochs hidden_size
           (opt_or (py_dict optlist) ''--sequence'' [])
           (opt_or (py_dict optlist) ''--model'' [])
           (opt_or (py_dict optlist) ''--dataset'' [])"
  shows "parse_opts float_of int_of optlist =
     Inr (build_res (py_dict optlist) lr drp decay en batch epochs hidden_size
           (opt_or (py_dict optlist) ''--sequence'' [])
           (opt_or (py_dict optlist) ''--model'' [])
           (opt_or (py_dict optlist) ''--dataset'' []))"
  using assms unfolding parse_opts_def all_checks_def listed_checks_def Let_def
  by (simp add: and_then_Inr and_then_assert)

lemma parse_opts_invalid:
  assumes "py_dict optlist ''--help'' = None"
    and "opt_float float_of (py_dict optlist) ''--lr'' (Finite (1 / 100)) = Inr lr"
    and "opt_float float_of (py_dict optlist) ''--drop'' (Finite 0) = Inr drp"
    and "opt_float float_of (py_dict optlist) ''--decay'' (Finite 0) = Inr decay"
    and "opt_float float_of (py_dict optlist) ''--embedding_norm'' (Finite 10) = Inr en"
    and "opt_int int_of (py_dict optlist) ''--batch'' 80 = Inr batch"
    and "opt_int int_of (py_dict optlist) ''--epochs'' 30 = Inr epochs"
    and "opt_int int_of (py_dict optlist) ''--hidden_size'' 200 = Inr hidden_size"
    and "\<not> all_checks lr drp decay en batch epochs hidden_size
           (opt_or (py_dict optlist) ''--sequence'' [])
           (opt_or (py_dict optlist) ''--model'' [])
           (opt_or (py_dict optlist) ''--dataset'' [])"
  shows "\<exists>msg. parse_opts float_of int_of optlist = Inl (AssertionError msg)"
  using assms unfolding parse_opts_def all_checks_def listed_checks_def Let_def
  by (auto simp add: and_then_Inr and_then_assert)

text \<open>
  Claim C9, as amended. When \<open>getopt\<close> accepts the arguments, \<open>--help\<close> is not among the
  options and every numeric option that is given converts, \<open>parse_args\<close> returns the
  parameter dictionary if all checks hold, the listed ones and a positive hidden size,
  and fails with an \<open>AssertionError\<close> if any of them does not hold. When it fails, the
  script ends with that error before the model is chosen and built.
\<close>

theorem parse_args_checks:
  assumes "getopt args = Inr (optlist, rest)"
    and "py_dict optlist ''--help'' = None"
    and "opt_float float_of (py_dict optlist) ''--lr'' (Finite (1 / 100)) = Inr lr"
    and "opt_float float_of (py_dict optlist) ''--drop'' (Finite 0) = Inr drp"
    and "opt_float float_of (py_dict optlist) ''--decay'' (Finite 0) = Inr decay"
    and "opt_float float_of (py_dict optlist) ''--embedding_norm'' (Finite 10) = Inr en"
    and "opt_int int_of (py_dict optlist) ''--batch'' 80 = Inr batch"
    and "opt_int int_of (py_dict optlist) ''--epochs'' 30 = Inr epochs"
    and "opt_int int_of (py_dict optlist) ''--hidden_size'' 200 = Inr hidden_size"
  shows "(if all_checks lr drp decay en batch epochs hidden_size
             (opt_or (py_dict optlist) ''--sequence'' [])
             (opt_or (py_dict optlist) ''--model'' [])
             (opt_or (py_dict optlist) ''--dataset'' [])
          then parse_args getopt float_of int_of args =
             Inr (build_res (py_dict optlist) lr drp decay en batch epochs hidden_size
                   (opt_or (py_dict optlist) ''--sequence'' [])
                   (opt_or (py_dict optlist) ''--model'' [])
                   (opt_or (py_dict optlist) ''--dataset'' []))
          else (\<exists>msg. parse_args getopt float_of int_of args = Inl (AssertionError msg))) \<and>
         (\<forall>e. parse_args getopt float_of int_of args = Inl e \<longrightarrow>
              main_setup getopt float_of int_of dm other args = Inl e)"
proof (intro conjI allI impI)
  have p: "parse_args getopt float_of int_of args = parse_opts float_of int_of optlist"
    by (simp add: parse_args_def assms(1))
  show "if all_checks lr drp decay en batch epochs hidden_size
             (opt_or (py_dict optlist) ''--sequence'' [])
             (opt_or (py_dict optlist) ''--model'' [])
             (opt_or (py_dict optlist) ''--dataset'' [])
          then parse_args getopt float_of int_of args =
             Inr (build_res (py_dict optlist) lr drp decay en batch epochs hidden_size
                   (opt_or (py_dict optlist) ''--sequence'' [])
                   (opt_or (py_dict optlist) ''--model'' [])
                   (opt_or (py_dict optlist) ''--dataset'' []))
          else (\<exists>msg. parse_args getopt float_of int_of args = Inl (AssertionError msg))"
  proof (cases "all_checks lr drp decay en batch epochs hidden_size
             (opt_or (py_dict optlist) ''--sequence'' [])
             (opt_or (py_dict optlist) ''--model'' [])
             (opt_or (py_dict optlist) ''--dataset'' [])")
    case True
    with p parse_opts_valid [OF assms(2-9) True] show ?thesis by simp
  next
    case False
    with p parse_opts_invalid [OF assms(2-9) False] show ?thesis by simp
  qed
next
  fix e assume "parse_args getopt float_of int_of args = Inl e"
  then show "main_setup getopt float_of int_of dm other args = Inl e"
    by (simp add: main_setup_def and_then_def)
qed

text \<open>
  The theorem at the options \<open>--model=encoder --sequence=tokens --dataset=movies
  --epochs=5\<close>: every hypothesis holds, all checks hold, and the dictionary is returned.
\<close>

theorem parse_args_checks_witness:
  "parse_args
     (\<lambda>args. (Inr ([(''--model'', ''encoder''), (''--sequence'', ''tokens''),
                     (''--dataset'', ''movies''), (''--epochs'', ''5'')], []) :: unit + _))
     (\<lambda>s. Inl ValueError) (\<lambda>s. if s = ''5'' then Inr 5 else Inl ValueError)
     [''--model=encoder'', ''--sequence=tokens'', ''--dataset=movies'', ''--epochs=5'']
   = Inr (build_res
       (py_dict [(''--model'', ''encoder''), (''--sequence'', ''tokens''),
                 (''--dataset'', ''movies''), (''--epochs'', ''5'')])
       (Finite (1 / 100)) (Finite 0) (Finite 0) (Finite 10) 80 5 200
       ''tokens'' ''encoder'' ''movies'')"
proof -
  let ?optlist = "[(''--model'', ''encoder''), (''--sequence'', ''tokens''),
                   (''--dataset'', ''movies''), (''--epochs'', ''5'')]"
  let ?getopt = "\<lambda>args :: string list. (Inr (?optlist, []) :: unit + _)"
  let ?fl = "\<lambda>s :: string. (Inl ValueError :: py_error + pyfloat)"
  let ?it = "\<lambda>s. if s = ''5'' then Inr (5 :: int) else Inl ValueError"
  let ?args = "[''--model=encoder'', ''--sequence=tokens'', ''--dataset=movies'', ''--epochs=5'']"
  have ok: "all_checks (Finite (1 / 100)) (Finite 0) (Finite 0) (Finite 10) 80 5 200
             (opt_or (py_dict ?optlist) ''--sequence'' [])
             (opt_or (py_dict ?optlist) ''--model'' [])
             (opt_or (py_dict ?optlist) ''--dataset'' [])"
    by (simp add: all_checks_def listed_checks_def possible_models_def possible_sequences_def
        possible_datasets_def py_dict_def opt_or_def)
  have names: "opt_or (py_dict ?optlist) ''--sequence'' [] = ''tokens''"
    "opt_or (py_dict ?optlist) ''--model'' [] = ''encoder''"
    "opt_or (py_dict ?optlist) ''--dataset'' [] = ''movies''"
    by (simp_all add: py_dict_def opt_or_def)
  have "if all_checks (Finite (1 / 100)) (Finite 0) (Finite 0) (Finite 10) 80 5 200
             (opt_or (py_dict ?optlist) ''--sequence'' [])
             (opt_or (py_dict ?optlist) ''--model'' [])
             (opt_or (py_dict ?optlist) ''--dataset'' [])
        then parse_args ?getopt ?fl ?it ?args =
          Inr (build_res (py_dict ?optlist) (Finite (1 / 100)) (Finite 0) (Finite 0)
                 (Finite 10) 80 5 200
                 (opt_or (py_dict ?optlist) ''--sequence'' [])
                 (opt_or (py_dict ?optlist) ''--model'' [])
                 (opt_or (py_dict ?optlist) ''--dataset'' []))
        else (\<exists>msg. parse_args ?getopt ?fl ?it ?args = Inl (AssertionError msg))"
    by (rule parse_args_checks [where getopt = ?getopt and args = ?args
          and optlist = ?optlist and rest = "[]" and float_of = ?fl and int_of = ?it,
          THEN conjunct1])
       (simp_all add: py_dict_def opt_float_def opt_int_def)
  with ok have "parse_args ?getopt ?fl ?it ?args =
      Inr (build_res (py_dict ?optlist) (Finite (1 / 100)) (Finite 0) (Finite 0) (Finite 10)
             80 5 200
             (opt_or (py_dict ?optlist) ''--sequence'' [])
             (opt_or (py_dict ?optlist) ''--model'' [])
             (opt_or (py_dict ?optlist) ''--dataset'' []))"
    by (simp only: if_True)
  then show ?thesis by (simp only: names)
qed

text \<open>
  Claim C9 as stated fails: with \<open>--hidden_size=0\<close> and nothing else wrong, all the
  listed checks hold (learning rate, dropout, decay, embedding norm, batch size and epochs
  at their defaults, the three names supported), and \<open>parse_args\<close> still fails, on the
  assertion that the hidden size is positive.
\<close>

theorem parse_args_hidden_size_counterexample:
  "listed_checks (Finite (1 / 100)) (Finite 0) (Finite 0) (Finite 10) 80 30
     ''tokens'' ''encoder'' ''movies''
   \<and> parse_args
       (\<lambda>args. (Inr ([(''--model'', ''encoder''), (''--sequence'', ''tokens''),
                       (''--dataset'', ''movies''), (''--hidden_size'', ''0'')], []) :: unit + _))
       (\<lambda>s. Inl ValueError) (\<lambda>s. if s = ''0'' then Inr 0 else Inl ValueError)
       [''--model=encoder'', ''--sequence=tokens'', ''--dataset=movies'', ''--hidden_size=0'']
     = Inl (AssertionError ''hidden size should be greater than 0'')"
  by (simp add: listed_checks_def possible_models_def possible_sequences_def
      possible_datasets_def parse_args_def parse_opts_def py_dict_def opt_float_def
      opt_int_def opt_or_def and_then_def py_assert_def)

subsection \<open>The prediction file\<close>






end
